theory Spec2Isabelle
  imports Main "HOL-Library.AList"
begin

unbundle bit_operations_syntax

section \<open>Python values and failures\<close>

text \<open>
  The program is Python 2: a \<open>str\<close> is a string of bytes, which is what a HOL
  \<open>string\<close> is (a list of 8-bit characters). Keys, passwords and binary buffers
  are all of that type; \<open>ord\<close> is \<open>of_char\<close> and \<open>chr\<close> is \<open>char_of\<close> on the range
  0..255. Timestamps are integers (the value of the clock when it is read).

  Every exception the modelled code can raise is a value of \<open>error\<close>. The two
  \<open>Exception(...)\<close> objects of datastore.py are told apart by their message:
  \<open>ReservedKey\<close> is \<open>Exception('"id" is a reserved key')\<close> and \<open>InvalidKey\<close> is
  \<open>Exception('key invalid: empty or None')\<close>.
\<close>

datatype error =
    AssertionError
  | ReservedKey
  | InvalidKey
  | TypeError
  | IndexError
  | ValueError
  | AttributeError
  | OSError
  | IOError
  | UnicodeDecodeError
  | ExternalError

definition bindE :: "error + 'a \<Rightarrow> ('a \<Rightarrow> error + 'b) \<Rightarrow> error + 'b" where
  "bindE m f = (case m of Inl e \<Rightarrow> Inl e | Inr v \<Rightarrow> f v)"

definition chr :: "int \<Rightarrow> error + char" where
  \<comment> \<open>\<open>chr(i)\<close>: ValueError unless \<open>i\<close> is in range(256)\<close>
  "chr i = (if 0 \<le> i \<and> i < 256 then Inr (char_of i) else Inl ValueError)"

definition ord :: "char \<Rightarrow> int" where
  "ord c = of_char c"

section \<open>util.Enum and the three algorithm enumerations\<close>

text \<open>
  \<open>util.Enum('a b c')\<close> gives the names of its argument the codes 0, 1, 2, ... in
  order; \<open>validate\<close> is membership among the codes.
\<close>

definition Enum :: "string list \<Rightarrow> (string \<times> int) list" where
  "Enum names = zip names (map int [0..<length names])"

definition validate :: "(string \<times> int) list \<Rightarrow> int \<Rightarrow> bool" where
  "validate e enum_value = (enum_value \<in> snd ` set e)"

definition CompAlgo :: "(string \<times> int) list" where
  "CompAlgo = Enum [''uncompressed'', ''zlib'', ''bz2'']"

definition CryptAlgo :: "(string \<times> int) list" where
  "CryptAlgo = Enum [''unencrypted'', ''AES'']"

definition ProtectAlgo :: "(string \<times> int) list" where
  "ProtectAlgo = Enum [''unprotected'', ''DPAPI'']"

definition uncompressed :: int where "uncompressed = 0"
definition zlib :: int where "zlib = 1"
definition bz2 :: int where "bz2 = 2"
definition unencrypted :: int where "unencrypted = 0"
definition AES :: int where "AES = 1"
definition unprotected :: int where "unprotected = 0"
definition DPAPI :: int where "DPAPI = 1"

section \<open>The libraries datastore.py calls\<close>

text \<open>
  cPickle, zlib, bz2, hashlib, PyCrypto and the Windows data-protection API are
  not code of this repository. The model takes them as a record of functions;
  a theorem that needs one of their laws (decompressing undoes compressing, ...)
  states it as a hypothesis. \<open>'o\<close> is the type of the Python objects stored.
  A library call that raises returns \<open>Inl\<close>.
\<close>

record 'o library =
  cPickle_dumps :: "'o \<Rightarrow> error + string"
  cPickle_loads :: "string \<Rightarrow> error + 'o"
  zlib_compress :: "string \<Rightarrow> int \<Rightarrow> error + string"
  zlib_decompress :: "string \<Rightarrow> error + string"
  bz2_compress :: "string \<Rightarrow> int \<Rightarrow> error + string"
  bz2_decompress :: "string \<Rightarrow> error + string"
  sha256_digest :: "string \<Rightarrow> string"
  AES_CFB_encrypt :: "string \<Rightarrow> string \<Rightarrow> string \<Rightarrow> error + string"
  AES_CFB_decrypt :: "string \<Rightarrow> string \<Rightarrow> string \<Rightarrow> error + string"
  CryptProtectData :: "string \<Rightarrow> string \<Rightarrow> string option"
  CryptUnprotectData :: "string \<Rightarrow> string \<Rightarrow> string option"

text \<open>
  \<open>AES_CFB_encrypt key IV buf\<close> is
  \<open>Crypto.Cipher.AES.new(key, MODE_CFB, IV).encrypt(buf)\<close>, and likewise for
  decryption. \<open>CryptProtectData plain entropy\<close> is the Windows call of dpapi.py:
  \<open>None\<close> when the call returns false, the output blob otherwise.
\<close>

subsection \<open>dpapi.py\<close>

definition extraEntropy :: string where
  "extraEntropy = ''dfgh9r8y39**/40304g0349g(G$((G$(G()$()G/()$Grejigferghzxczxc''"

definition Win32CryptProtectData :: "'o library \<Rightarrow> string \<Rightarrow> string \<Rightarrow> string" where
  "Win32CryptProtectData L plainText entropy =
     (case CryptProtectData L plainText entropy of Some out \<Rightarrow> out | None \<Rightarrow> [])"

definition Win32CryptUnprotectData :: "'o library \<Rightarrow> string \<Rightarrow> string \<Rightarrow> string" where
  "Win32CryptUnprotectData L cipherText entropy =
     (case CryptUnprotectData L cipherText entropy of Some out \<Rightarrow> out | None \<Rightarrow> [])"

definition cryptData :: "'o library \<Rightarrow> string \<Rightarrow> string" where
  "cryptData L text = Win32CryptProtectData L text extraEntropy"

definition decryptData :: "'o library \<Rightarrow> string \<Rightarrow> string" where
  "decryptData L cipher_text = Win32CryptUnprotectData L cipher_text extraEntropy"

section \<open>class DataStore\<close>

text \<open>
  The private attribute dictionary \<open>_priv\<close> of a store: the default encoding
  parameters fixed by \<open>__init__\<close>.
\<close>

record datastore =
  priv_comp_algo :: int
  priv_comp_level :: int
  priv_crypt_algo :: int
  priv_crypt_pwd :: "string option"
  priv_protect_algo :: int

definition DataStore_init ::
  "int \<Rightarrow> int \<Rightarrow> int \<Rightarrow> string option \<Rightarrow> int \<Rightarrow> error + datastore" where
  "DataStore_init comp_algo comp_level crypt_algo crypt_pwd protect_algo =
     (if \<not> validate CompAlgo comp_algo then Inl AssertionError
      else if \<not> (comp_level \<ge> 1 \<and> comp_level \<le> 9) then Inl AssertionError
      else if \<not> validate CryptAlgo crypt_algo then Inl AssertionError
      else if \<not> validate ProtectAlgo protect_algo then Inl AssertionError
      else Inr \<lparr> priv_comp_algo = comp_algo, priv_comp_level = comp_level,
                 priv_crypt_algo = crypt_algo, priv_crypt_pwd = crypt_pwd,
                 priv_protect_algo = protect_algo \<rparr>)"

definition DataStore_default :: datastore where
  \<comment> \<open>the defaults of \<open>__init__\<close>'s keyword parameters\<close>
  "DataStore_default =
     \<lparr> priv_comp_algo = uncompressed, priv_comp_level = 5, priv_crypt_algo = unencrypted,
       priv_crypt_pwd = None, priv_protect_algo = unprotected \<rparr>"

definition or_default :: "'a option \<Rightarrow> 'a \<Rightarrow> 'a" where
  \<comment> \<open>\<open>if x == None: x = d\<close>\<close>
  "or_default x d = (case x of None \<Rightarrow> d | Some v \<Rightarrow> v)"

definition pwd_or_default :: "string option \<Rightarrow> string option \<Rightarrow> string option" where
  \<comment> \<open>\<open>if crypt_pwd == None: crypt_pwd = self._crypt_pwd\<close>\<close>
  "pwd_or_default crypt_pwd d = (case crypt_pwd of None \<Rightarrow> d | Some p \<Rightarrow> Some p)"

definition truthy_pwd :: "string option \<Rightarrow> bool" where
  \<comment> \<open>the truth value of a password: neither \<open>None\<close> nor the empty string\<close>
  "truthy_pwd p = (case p of None \<Rightarrow> False | Some s \<Rightarrow> s \<noteq> [])"

definition level_ok :: "int option \<Rightarrow> bool" where
  \<comment> \<open>\<open>comp_level >= 1 and comp_level <= 9\<close>; in Python 2 \<open>None >= 1\<close> is false\<close>
  "level_ok comp_level = (case comp_level of None \<Rightarrow> False | Some l \<Rightarrow> l \<ge> 1 \<and> l \<le> 9)"

definition with_level :: "(int \<Rightarrow> error + string) \<Rightarrow> int option \<Rightarrow> error + string" where
  \<comment> \<open>a compression call; the library refuses \<open>None\<close> as a level with TypeError\<close>
  "with_level compress comp_level =
     (case comp_level of None \<Rightarrow> Inl TypeError | Some l \<Rightarrow> compress l)"

definition sha256 :: "'o library \<Rightarrow> string option \<Rightarrow> error + string" where
  \<comment> \<open>\<open>hashlib.sha256(crypt_pwd).digest()\<close>; hashing \<open>None\<close> raises TypeError\<close>
  "sha256 L crypt_pwd =
     (case crypt_pwd of None \<Rightarrow> Inl TypeError | Some p \<Rightarrow> Inr (sha256_digest L p))"

subsection \<open>setobj\<close>

text \<open>
  The keyword arguments of \<open>setobj\<close>, each \<open>None\<close> when the caller leaves it out.
\<close>

record setobj_args =
  arg_comp_algo :: "int option"
  arg_comp_level :: "int option"
  arg_crypt_algo :: "int option"
  arg_crypt_pwd :: "string option"
  arg_protect_algo :: "int option"

definition no_args :: setobj_args where
  "no_args = \<lparr> arg_comp_algo = None, arg_comp_level = None, arg_crypt_algo = None,
               arg_crypt_pwd = None, arg_protect_algo = None \<rparr>"

text \<open>
  \<open>setobj_buffer\<close> is \<open>setobj\<close> from its first line to the line before
  \<open>return self.setdata(key, buf)\<close>: the buffer that is handed to the backend, or
  the exception raised before. \<open>urandom16\<close> is the value \<open>os.urandom(16)\<close>
  returns in this call.
\<close>

definition setobj_buffer ::
  "'o library \<Rightarrow> datastore \<Rightarrow> 'o \<Rightarrow> setobj_args \<Rightarrow> string \<Rightarrow> error + string" where
  "setobj_buffer L self obj a urandom16 =
    (let comp_algo = or_default (arg_comp_algo a) (priv_comp_algo self) in
     if \<not> validate CompAlgo comp_algo then Inl AssertionError else
     let comp_level = (if comp_algo \<noteq> uncompressed
                       then Some (or_default (arg_comp_level a) (priv_comp_level self))
                       else arg_comp_level a) in
     if comp_algo \<noteq> uncompressed \<and> \<not> level_ok comp_level
     then Inl AssertionError else
     let crypt_algo = or_default (arg_crypt_algo a) (priv_crypt_algo self) in
     if \<not> validate CryptAlgo crypt_algo then Inl AssertionError else
     let crypt_pwd = (if crypt_algo \<noteq> unencrypted
                      then pwd_or_default (arg_crypt_pwd a) (priv_crypt_pwd self)
                      else arg_crypt_pwd a) in
     if crypt_algo \<noteq> unencrypted \<and> \<not> truthy_pwd crypt_pwd then Inl AssertionError else
     let protect_algo = or_default (arg_protect_algo a) (priv_protect_algo self) in
     if \<not> validate ProtectAlgo protect_algo then Inl AssertionError else
     bindE (cPickle_dumps L obj) (\<lambda>buf0.
     bindE (if comp_algo = zlib then with_level (zlib_compress L buf0) comp_level
            else if comp_algo = bz2 then with_level (bz2_compress L buf0) comp_level
            else Inr buf0) (\<lambda>buf1.
     bindE (if crypt_algo = AES
            then (let IV = urandom16 in
                  bindE (sha256 L crypt_pwd) (\<lambda>crypt_key.
                  bindE (AES_CFB_encrypt L crypt_key IV buf1) (\<lambda>c. Inr (IV @ c))))
            else Inr buf1) (\<lambda>buf2.
     let buf3 = (if protect_algo = DPAPI then cryptData L buf2 else buf2);
         proto_ver = 0;
         header_byte = (push_bit 5 comp_algo) OR (push_bit 2 crypt_algo) OR protect_algo
     in bindE (chr proto_ver) (\<lambda>c0.
        bindE (chr header_byte) (\<lambda>c1.
        Inr (c0 # c1 # buf3)))))))"

text \<open>
  \<open>setobj\<close> itself: \<open>setdata\<close> is the backend's method, a function of the store's
  state that returns the state after the call and what the call returned or
  raised. An exception before the call of \<open>setdata\<close> leaves the state as it was.
\<close>

definition setobj ::
  "'o library \<Rightarrow> datastore \<Rightarrow> ('s \<Rightarrow> string \<Rightarrow> string \<Rightarrow> 's \<times> (error + 'r)) \<Rightarrow>
   's \<Rightarrow> string \<Rightarrow> 'o \<Rightarrow> setobj_args \<Rightarrow> string \<Rightarrow> 's \<times> (error + 'r)" where
  "setobj L self setdata s key obj a urandom16 =
     (case setobj_buffer L self obj a urandom16 of
        Inl e \<Rightarrow> (s, Inl e)
      | Inr buf \<Rightarrow> setdata s key buf)"

subsection \<open>getobj\<close>

text \<open>
  What a backend's \<open>getdata\<close> returns: the tuple \<open>(data, update_time)\<close>, whose
  components may be \<open>None\<close>, or \<open>None\<close> itself when the method ends without a
  \<open>return\<close>.
\<close>

datatype getdata_result = ReturnsNone | ReturnsTuple "string option" "int option"

text \<open>
  \<open>getobj_decode\<close> is \<open>getobj\<close> from \<open>proto_ver = ord(buf[0])\<close> to
  \<open>cPickle.loads(buf)\<close>, on the buffer the backend returned.
\<close>

definition getobj_decode ::
  "'o library \<Rightarrow> datastore \<Rightarrow> string option \<Rightarrow> string \<Rightarrow> error + 'o" where
  "getobj_decode L self crypt_pwd buf =
    (case buf of
       [] \<Rightarrow> Inl IndexError
     | b0 # _ \<Rightarrow>
       let proto_ver = ord b0 in
       if proto_ver \<noteq> 0 then Inl AssertionError else
       (case tl buf of
          [] \<Rightarrow> Inl IndexError
        | b1 # _ \<Rightarrow>
          let header = ord b1;
              buf0 = drop 2 buf;
              comp_algo = drop_bit 5 (header AND 224);
              crypt_algo = drop_bit 2 (header AND 28);
              protect_algo = header AND 3
          in
          if \<not> validate CompAlgo comp_algo then Inl AssertionError else
          if \<not> validate CryptAlgo crypt_algo then Inl AssertionError else
          if \<not> validate ProtectAlgo protect_algo then Inl AssertionError else
          let buf1 = (if protect_algo = DPAPI then decryptData L buf0 else buf0) in
          bindE (if crypt_algo = AES
                 then (let pwd = pwd_or_default crypt_pwd (priv_crypt_pwd self) in
                       if \<not> truthy_pwd pwd then Inl AssertionError else
                       let IV = take 16 buf1;
                           rest = drop 16 buf1
                       in bindE (sha256 L pwd) (\<lambda>crypt_key.
                          AES_CFB_decrypt L crypt_key IV rest))
                 else Inr buf1) (\<lambda>buf2.
          bindE (if comp_algo = zlib then zlib_decompress L buf2
                 else if comp_algo = bz2 then bz2_decompress L buf2
                 else Inr buf2) (\<lambda>buf3.
          cPickle_loads L buf3))))"

text \<open>
  \<open>getobj\<close>: \<open>getdata\<close> is the backend's method on the store's current state.
  Unpacking \<open>buf, upd_time = self.getdata(key)\<close> raises TypeError when the
  method returned \<open>None\<close> instead of a tuple. \<open>not buf\<close> holds of \<open>None\<close> and of
  the empty string.
\<close>

definition getobj ::
  "'o library \<Rightarrow> datastore \<Rightarrow> (string \<Rightarrow> error + getdata_result) \<Rightarrow>
   string \<Rightarrow> string option \<Rightarrow> error + ('o option \<times> int option)" where
  "getobj L self getdata key crypt_pwd =
     (case getdata key of
        Inl e \<Rightarrow> Inl e
      | Inr ReturnsNone \<Rightarrow> Inl TypeError
      | Inr (ReturnsTuple buf upd_time) \<Rightarrow>
          (case buf of
             None \<Rightarrow> Inr (None, None)
           | Some b \<Rightarrow>
               if b = [] then Inr (None, None)
               else (case getobj_decode L self crypt_pwd b of
                       Inl e \<Rightarrow> Inl e
                     | Inr obj \<Rightarrow> Inr (Some obj, upd_time))))"

section \<open>The file system\<close>

text \<open>
  The directory backend works on the file system through \<open>os\<close> and \<open>os.path\<close>.
  The model of the file system is a tree: a regular file holds its content and
  its modification time, a directory holds its modification time and its
  entries by name. A path is the list of its components from the root of the
  tree. Path strings are read as the operating system reads them: components
  are separated by \<open>/\<close>, an empty component and \<open>.\<close> stay in the directory, \<open>..\<close>
  goes to the parent, and a string that starts with \<open>/\<close> is taken from the root
  (what \<open>os.path.join\<close> does with an absolute second argument). Keys are taken
  to hold no backslash and no colon, as the module's docstring asks.
\<close>

datatype node = File string int | Directory int "(string \<times> node) list"

fun split_on :: "char \<Rightarrow> string \<Rightarrow> string list" where
  \<comment> \<open>\<open>s.split(c)\<close>\<close>
  "split_on c [] = [[]]"
| "split_on c (x # xs) =
     (if x = c then [] # split_on c xs
      else (case split_on c xs of t # ts \<Rightarrow> (x # t) # ts | [] \<Rightarrow> [[x]]))"

fun str_join :: "string \<Rightarrow> string list \<Rightarrow> string" where
  \<comment> \<open>\<open>sep.join(parts)\<close>\<close>
  "str_join sep [] = []"
| "str_join sep [p] = p"
| "str_join sep (p # q # ps) = p @ sep @ str_join sep (q # ps)"

fun resolve :: "string list \<Rightarrow> string list \<Rightarrow> string list" where
  "resolve cur [] = cur"
| "resolve cur (c # cs) =
     (if c = [] \<or> c = ''.'' then resolve cur cs
      else if c = ''..'' then resolve (butlast cur) cs
      else resolve (cur @ [c]) cs)"

definition path_join :: "string list \<Rightarrow> string \<Rightarrow> string list" where
  \<comment> \<open>\<open>os.path.join(base, s)\<close>, as the path the result names\<close>
  "path_join base s =
     (case s of
        [] \<Rightarrow> base
      | x # _ \<Rightarrow> if x = CHR ''/'' then resolve [] (split_on CHR ''/'' s)
                 else resolve base (split_on CHR ''/'' s))"

fun lookup :: "string list \<Rightarrow> node \<Rightarrow> node option" where
  "lookup [] n = Some n"
| "lookup (name # rest) n =
     (case n of
        File _ _ \<Rightarrow> None
      | Directory _ entries \<Rightarrow>
          (case map_of entries name of None \<Rightarrow> None | Some child \<Rightarrow> lookup rest child))"

definition isdir :: "node \<Rightarrow> string list \<Rightarrow> bool" where
  "isdir fs p = (case lookup p fs of Some (Directory _ _) \<Rightarrow> True | _ \<Rightarrow> False)"

definition isfile :: "node \<Rightarrow> string list \<Rightarrow> bool" where
  "isfile fs p = (case lookup p fs of Some (File _ _) \<Rightarrow> True | _ \<Rightarrow> False)"

text \<open>
  \<open>put p new now fs\<close> places the node \<open>new\<close> at the path \<open>p\<close>, whose parent has to
  be a directory; a directory that gets a new entry gets the modification time
  \<open>now\<close>. \<open>None\<close> when the parent is missing or is a file.
\<close>

fun put :: "string list \<Rightarrow> node \<Rightarrow> int \<Rightarrow> node \<Rightarrow> node option" where
  "put [] new now n = None"
| "put [name] new now n =
     (case n of
        File _ _ \<Rightarrow> None
      | Directory t entries \<Rightarrow>
          Some (Directory (if map_of entries name = None then now else t)
                          (AList.update name new entries)))"
| "put (name # rest) new now n =
     (case n of
        File _ _ \<Rightarrow> None
      | Directory t entries \<Rightarrow>
          (case map_of entries name of
             None \<Rightarrow> None
           | Some child \<Rightarrow>
               (case put rest new now child of
                  None \<Rightarrow> None
                | Some child' \<Rightarrow> Some (Directory t (AList.update name child' entries)))))"

definition mkdir :: "string list \<Rightarrow> int \<Rightarrow> node \<Rightarrow> error + node" where
  \<comment> \<open>\<open>os.mkdir(p)\<close>: OSError when \<open>p\<close> exists or its parent is not a directory\<close>
  "mkdir p now fs =
     (if lookup p fs \<noteq> None then Inl OSError
      else (case put p (Directory now []) now fs of
              None \<Rightarrow> Inl OSError
            | Some fs' \<Rightarrow> Inr fs'))"

definition write_file :: "string list \<Rightarrow> string \<Rightarrow> int \<Rightarrow> node \<Rightarrow> error + node" where
  \<comment> \<open>\<open>with open(p, 'wb') as f: f.write(data)\<close>: IOError when \<open>p\<close> is a directory or
      its parent is not one\<close>
  "write_file p data now fs =
     (if isdir fs p then Inl IOError
      else (case put p (File data now) now fs of
              None \<Rightarrow> Inl IOError
            | Some fs' \<Rightarrow> Inr fs'))"

definition read_file :: "string list \<Rightarrow> node \<Rightarrow> error + string" where
  \<comment> \<open>\<open>with open(p, 'rb') as f: f.read()\<close>\<close>
  "read_file p fs =
     (case lookup p fs of Some (File data _) \<Rightarrow> Inr data | _ \<Rightarrow> Inl IOError)"

definition getmtime :: "string list \<Rightarrow> node \<Rightarrow> error + int" where
  \<comment> \<open>\<open>os.path.getmtime(p)\<close>: OSError when nothing is at \<open>p\<close>\<close>
  "getmtime p fs =
     (case lookup p fs of
        None \<Rightarrow> Inl OSError
      | Some (File _ t) \<Rightarrow> Inr t
      | Some (Directory t _) \<Rightarrow> Inr t)"

text \<open>
  \<open>walk n\<close> lists the regular files below \<open>n\<close>, each with its path relative to \<open>n\<close>
  and its modification time: what the two nested loops over \<open>os.walk\<close> visit.
\<close>

fun walk :: "node \<Rightarrow> (string list \<times> int) list" where
  "walk (File _ t) = [([], t)]"
| "walk (Directory _ entries) =
     concat (map (\<lambda>e. map (\<lambda>f. (fst e # fst f, snd f)) (walk (snd e))) entries)"

section \<open>class Dir\<close>

record dir_store = datastore +
  priv_path :: "string list"

text \<open>
  \<open>Dir.__init__\<close>; \<open>abspath\<close> is \<open>os.path.abspath(path)\<close> as a list of components,
  \<open>uuid4_hex\<close> the value of \<open>uuid.uuid4().hex\<close> and \<open>now\<close> the clock. The result is
  the file system after the call and the new object, or the exception. The
  object's encoding defaults are those of \<open>DataStore.__init__()\<close> called without
  arguments.
\<close>

definition Dir_init :: "string list \<Rightarrow> string \<Rightarrow> int \<Rightarrow> node \<Rightarrow> node \<times> (error + dir_store)" where
  "Dir_init abspath uuid4_hex now fs =
     (let self = datastore.extend DataStore_default (dir_store.fields abspath) in
      case (if \<not> isdir fs abspath then mkdir abspath now fs else Inr fs) of
        Inl e \<Rightarrow> (fs, Inl e)
      | Inr fs1 \<Rightarrow>
          (let id_path = path_join abspath ''id'' in
           if \<not> isfile fs1 id_path
           then (case write_file id_path uuid4_hex now fs1 of
                   Inl e \<Rightarrow> (fs1, Inl e)
                 | Inr fs2 \<Rightarrow> (fs2, Inr self))
           else (fs1, Inr self)))"

definition unicode :: "string \<Rightarrow> error + string" where
  \<comment> \<open>\<open>unicode(s)\<close> decodes with the ASCII codec\<close>
  "unicode s = (if \<forall>c \<in> set s. ord c < 128 then Inr s else Inl UnicodeDecodeError)"

definition Dir_getid :: "dir_store \<Rightarrow> node \<Rightarrow> error + string" where
  "Dir_getid self fs =
     (let id_path = path_join (priv_path self) ''id'' in
      bindE (read_file id_path fs) unicode)"

definition Dir_getupdtime :: "dir_store \<Rightarrow> node \<Rightarrow> string \<Rightarrow> error + int" where
  "Dir_getupdtime self fs key =
     (if key = ''id'' then Inl ReservedKey
      else getmtime (path_join (priv_path self) key) fs)"

definition startswith :: "string \<Rightarrow> string \<Rightarrow> bool" where
  "startswith key p = (take (length p) key = p)"

definition Dir_listkeys :: "dir_store \<Rightarrow> node \<Rightarrow> string option \<Rightarrow> (string \<rightharpoonup> int)" where
  "Dir_listkeys self fs prefix =
     (let found = (case lookup (priv_path self) fs of
                     Some (Directory t entries) \<Rightarrow> walk (Directory t entries)
                   | _ \<Rightarrow> []);
          keys = foldl (\<lambda>keys f.
                   let key = str_join ''/'' (fst f) in
                   if (case prefix of None \<Rightarrow> False | Some p \<Rightarrow> p \<noteq> [] \<and> \<not> startswith key p)
                   then keys
                   else keys(key \<mapsto> snd f)) Map.empty found
      in keys(''id'' := None))"

definition Dir_getdata :: "dir_store \<Rightarrow> node \<Rightarrow> string \<Rightarrow> error + getdata_result" where
  "Dir_getdata self fs key =
     (if key = ''id'' then Inl ReservedKey
      else let keys = Dir_listkeys self fs None in
        if keys key \<noteq> None
        then (let fname = path_join (priv_path self) key in
              bindE (read_file fname fs) (\<lambda>data.
              bindE (Dir_getupdtime self fs key) (\<lambda>t.
              Inr (ReturnsTuple (Some data) (Some t)))))
        else Inr ReturnsNone)"

text \<open>
  The loop of \<open>setdata\<close> over the directory tokens of the key: it returns the file
  system it has reached and \<open>data_path\<close>, or the exception of \<open>os.mkdir\<close>.
\<close>

fun make_dirs :: "string list \<Rightarrow> string list \<Rightarrow> int \<Rightarrow> node \<Rightarrow> node \<times> (error + string list)" where
  "make_dirs data_path [] now fs = (fs, Inr data_path)"
| "make_dirs data_path (token # tokens) now fs =
     (let data_path' = path_join data_path token in
      if \<not> isdir fs data_path'
      then (case mkdir data_path' now fs of
              Inl e \<Rightarrow> (fs, Inl e)
            | Inr fs' \<Rightarrow> make_dirs data_path' tokens now fs')
      else make_dirs data_path' tokens now fs)"

definition Dir_setdata ::
  "dir_store \<Rightarrow> int \<Rightarrow> node \<Rightarrow> string \<Rightarrow> string \<Rightarrow> node \<times> (error + int option)" where
  "Dir_setdata self now fs key0 data =
     (if key0 = ''id'' then (fs, Inl ReservedKey)
      else if key0 = [] then (fs, Inl InvalidKey)
      else
        let key = (if hd key0 = CHR ''/'' then tl key0 else key0);
            tokens = split_on CHR ''/'' key;
            file_part = last tokens;
            tokens' = butlast tokens
        in case make_dirs (priv_path self) tokens' now fs of
             (fs1, Inl e) \<Rightarrow> (fs1, Inl e)
           | (fs1, Inr data_path0) \<Rightarrow>
               (let data_path = path_join data_path0 file_part in
                case write_file data_path data now fs1 of
                  Inl e \<Rightarrow> (fs1, Inl e)
                | Inr fs2 \<Rightarrow>
                    (case getmtime data_path fs2 of
                       Inl e \<Rightarrow> (fs2, Inl e)
                     | Inr t \<Rightarrow> (fs2, Inr (Some t)))))"

definition Dir_getobj ::
  "'o library \<Rightarrow> dir_store \<Rightarrow> node \<Rightarrow> string \<Rightarrow> string option \<Rightarrow>
   error + ('o option \<times> int option)" where
  "Dir_getobj L self fs key crypt_pwd =
     getobj L (datastore.truncate self) (Dir_getdata self fs) key crypt_pwd"

definition Dir_setobj ::
  "'o library \<Rightarrow> dir_store \<Rightarrow> int \<Rightarrow> node \<Rightarrow> string \<Rightarrow> 'o \<Rightarrow> setobj_args \<Rightarrow> string \<Rightarrow>
   node \<times> (error + int option)" where
  "Dir_setobj L self now fs key obj a urandom16 =
     setobj L (datastore.truncate self) (Dir_setdata self now) fs key obj a urandom16"

section \<open>class SqliteTable\<close>

text \<open>
  The sqlite3 module is a library: the model takes what it does as a record of
  functions over a type \<open>'c\<close> of database states, a type \<open>'cur\<close> of cursors and a
  type \<open>'row\<close> of rows. \<open>execute conn query params\<close> is \<open>conn.execute(query, params)\<close>
  (committed where the source runs it under \<open>with conn\<close>): the database after
  the statement and the cursor, or the exception. The other fields are what
  Python does with a cursor or a row: its truth value, indexing, iteration and
  attribute access, and \<open>'{}'.format(v)\<close>.
\<close>

datatype sqlval = SqlNull | SqlInt int | SqlText string | SqlBlob string

type_synonym kwargs = "(string \<times> sqlval) list"

record ('c, 'cur, 'row) sqlite3 =
  execute :: "'c \<Rightarrow> string \<Rightarrow> sqlval list \<Rightarrow> 'c \<times> (error + 'cur)"
  cursor_bool :: "'cur \<Rightarrow> bool"
  cursor_getitem :: "'cur \<Rightarrow> nat \<Rightarrow> error + 'row"
  cursor_iter :: "'cur \<Rightarrow> 'row list"
  lastrowid :: "'cur \<Rightarrow> int"
  getattr_buf :: "'cur + 'row \<Rightarrow> string \<Rightarrow> error + string option"
  getattr_num :: "'cur + 'row \<Rightarrow> string \<Rightarrow> error + int"
  getattr_str :: "'cur + 'row \<Rightarrow> string \<Rightarrow> error + string"
  format :: "sqlval \<Rightarrow> string"

record table_class =
  name :: string
  columns :: "(string \<times> string) list"

definition colnames :: "table_class \<Rightarrow> string list" where
  \<comment> \<open>set by \<open>connect\<close>: \<open>[c[0] for c in table_class.columns]\<close>\<close>
  "colnames cls = map fst (columns cls)"

definition truthy :: "sqlval \<Rightarrow> bool" where
  "truthy v = (case v of SqlNull \<Rightarrow> False | SqlInt i \<Rightarrow> i \<noteq> 0
               | SqlText s \<Rightarrow> s \<noteq> [] | SqlBlob b \<Rightarrow> b \<noteq> [])"

definition connect ::
  "('c, 'cur, 'row) sqlite3 \<Rightarrow> 'c \<Rightarrow> table_class \<Rightarrow> 'c \<times> (error + unit)" where
  \<comment> \<open>\<open>conn\<close> is what \<open>sqlite3.connect(db_path)\<close> returned; one table class, which
      has neither \<open>unique\<close> nor \<open>default_rows\<close>\<close>
  "connect S conn table_class =
     (let query_str = ''CREATE TABLE IF NOT EXISTS [tbl_'' @ name table_class @ ''] ('';
          query_str = query_str @
            str_join '','' (map (\<lambda>t. ''['' @ fst t @ ''] '' @ snd t) (columns table_class));
          query_str = query_str @ '');''
      in case execute S conn query_str [] of
           (conn', Inl e) \<Rightarrow> (conn', Inl e)
         | (conn', Inr _) \<Rightarrow> (conn', Inr ()))"

text \<open>
  \<open>select(cls, conn, cols, **kwargs)\<close>. A SELECT statement leaves the database
  as it is, so \<open>select\<close> returns the cursor only.
\<close>

definition select ::
  "('c, 'cur, 'row) sqlite3 \<Rightarrow> table_class \<Rightarrow> 'c \<Rightarrow> sqlval \<Rightarrow> kwargs \<Rightarrow> error + 'cur" where
  "select S cls conn cols kwargs =
     (if \<not> set (map fst kwargs) \<subseteq> set (colnames cls) then Inl AssertionError
      else
        let cols' = (if \<not> truthy cols then ''*'' else format S cols);
            query_str = ''SELECT '' @ cols' @ '' FROM tbl_'' @ name cls;
            query_str = (if kwargs \<noteq> []
                         then query_str @ '' WHERE '' @
                              str_join '' AND '' (map (\<lambda>kw. fst kw @ ''=?'') kwargs)
                         else query_str);
            query_str = query_str @ '';''
        in snd (execute S conn query_str (map snd kwargs)))"

text \<open>
  Every caller of \<open>select\<close> in datastore.py writes \<open>select(conn, **kwargs)\<close>: the
  parameter \<open>cols\<close> has no default and gets no positional argument. Python binds
  it from a keyword named \<open>cols\<close> when there is one and raises TypeError when
  there is none. \<open>select_kw\<close> is that call.
\<close>

definition select_kw ::
  "('c, 'cur, 'row) sqlite3 \<Rightarrow> table_class \<Rightarrow> 'c \<Rightarrow> kwargs \<Rightarrow> error + 'cur" where
  "select_kw S cls conn kwargs =
     (case map_of kwargs ''cols'' of
        None \<Rightarrow> Inl TypeError
      | Some cols \<Rightarrow> select S cls conn cols (filter (\<lambda>kw. fst kw \<noteq> ''cols'') kwargs))"

definition exists_row ::
  "('c, 'cur, 'row) sqlite3 \<Rightarrow> table_class \<Rightarrow> 'c \<Rightarrow> kwargs \<Rightarrow> error + bool" where
  \<comment> \<open>\<open>exists\<close>: \<open>bool(cls.select(conn, **kwargs))\<close>\<close>
  "exists_row S cls conn kwargs =
     bindE (select_kw S cls conn kwargs) (\<lambda>cur. Inr (cursor_bool S cur))"

definition insert_row ::
  "('c, 'cur, 'row) sqlite3 \<Rightarrow> table_class \<Rightarrow> 'c \<Rightarrow> kwargs \<Rightarrow> 'c \<times> (error + int)" where
  \<comment> \<open>\<open>insert\<close>\<close>
  "insert_row S cls conn kwargs =
     (if kwargs \<noteq> [] \<and> \<not> set (map fst kwargs) \<subseteq> set (colnames cls)
      then (conn, Inl AssertionError)
      else
        let query =
          (if kwargs \<noteq> []
           then ''INSERT INTO tbl_'' @ name cls @ '' ('' @
                str_join '','' (map (\<lambda>kw. [CHR 0x27] @ fst kw @ [CHR 0x27]) kwargs) @
                '') VALUES ('' @ str_join '','' (map (\<lambda>kw. ''?'') kwargs) @ '')''
           else ''INSERT INTO tbl_'' @ name cls @ '' DEFAULT VALUES'')
        in case execute S conn query (map snd kwargs) of
             (conn', Inl e) \<Rightarrow> (conn', Inl e)
           | (conn', Inr cur) \<Rightarrow> (conn', Inr (lastrowid S cur)))"

definition dict_of :: "kwargs \<Rightarrow> kwargs" where
  \<comment> \<open>\<open>dict(items)\<close>: a later item replaces an earlier one with the same key\<close>
  "dict_of items = foldl (\<lambda>d kv. AList.update (fst kv) (snd kv) d) [] items"

definition update ::
  "('c, 'cur, 'row) sqlite3 \<Rightarrow> table_class \<Rightarrow> 'c \<Rightarrow> kwargs \<Rightarrow> kwargs \<Rightarrow> bool \<Rightarrow>
   'c \<times> (error + unit)" where
  "update S cls conn key_cols val_cols insert_missing =
     (if \<not> set (map fst key_cols) \<subseteq> set (colnames cls) then (conn, Inl AssertionError)
      else if \<not> set (map fst val_cols) \<subseteq> set (colnames cls) then (conn, Inl AssertionError)
      else
        case (if insert_missing
              then bindE (exists_row S cls conn key_cols) (\<lambda>found. Inr (\<not> found))
              else Inr False) of
          Inl e \<Rightarrow> (conn, Inl e)
        | Inr True \<Rightarrow>
            (case insert_row S cls conn (dict_of (key_cols @ val_cols)) of
               (conn', Inl e) \<Rightarrow> (conn', Inl e)
             | (conn', Inr _) \<Rightarrow> (conn', Inr ()))
        | Inr False \<Rightarrow>
            (let key_str = str_join '','' (map (\<lambda>k. fst k @ ''=?'') key_cols);
                 val_str = str_join '','' (map (\<lambda>k. fst k @ ''=?'') val_cols);
                 query = ''UPDATE tbl_'' @ name cls @ '' SET '' @ val_str @
                         '' WHERE '' @ key_str
             in case execute S conn query (map snd val_cols @ map snd key_cols) of
                  (conn', Inl e) \<Rightarrow> (conn', Inl e)
                | (conn', Inr _) \<Rightarrow> (conn', Inr ())))"

section \<open>class DB\<close>

definition DB_table :: table_class where
  "DB_table = \<lparr> name = ''DB_table'',
                columns = [(''id'', ''INTEGER PRIMARY KEY''),
                           (''key'', ''TEXT NOT NULL UNIQUE''),
                           (''value'', ''BLOB NOT NULL''),
                           (''update_time'', ''INTEGER NOT NULL'')] \<rparr>"

record db_store = datastore +
  priv_db_path :: string

text \<open>
  \<open>DB.__init__\<close>: \<open>conn\<close> is the connection \<open>sqlite3.connect(db_path)\<close> gives,
  \<open>uuid4_bytes\<close> the value of \<open>uuid.uuid4().bytes\<close>, \<open>now\<close> the clock, and the
  five arguments after \<open>db_path\<close> are the keyword arguments handed on to
  \<open>DataStore.__init__\<close>.
\<close>

definition DB_init ::
  "('c, 'cur, 'row) sqlite3 \<Rightarrow> 'c \<Rightarrow> string \<Rightarrow> int \<Rightarrow> int \<Rightarrow> int \<Rightarrow> string option \<Rightarrow> int \<Rightarrow>
   string \<Rightarrow> int \<Rightarrow> 'c \<times> (error + db_store)" where
  "DB_init S conn db_path comp_algo comp_level crypt_algo crypt_pwd protect_algo
           uuid4_bytes now =
     (case DataStore_init comp_algo comp_level crypt_algo crypt_pwd protect_algo of
        Inl e \<Rightarrow> (conn, Inl e)
      | Inr base \<Rightarrow>
          (let self = datastore.extend base (db_store.fields db_path) in
           case connect S conn DB_table of
             (conn1, Inl e) \<Rightarrow> (conn1, Inl e)
           | (conn1, Inr _) \<Rightarrow>
               (case exists_row S DB_table conn1 [(''key'', SqlText ''id'')] of
                  Inl e \<Rightarrow> (conn1, Inl e)
                | Inr found \<Rightarrow>
                    if \<not> found
                    then (case insert_row S DB_table conn1
                                 [(''key'', SqlText ''id''), (''value'', SqlBlob uuid4_bytes),
                                  (''update_time'', SqlInt now)] of
                            (conn2, Inl e) \<Rightarrow> (conn2, Inl e)
                          | (conn2, Inr _) \<Rightarrow> (conn2, Inr self))
                    else (conn1, Inr self))))"

definition hex_digit :: "nat \<Rightarrow> char" where
  "hex_digit n = ''0123456789abcdef'' ! (n mod 16)"

definition hexlify :: "string \<Rightarrow> string" where
  \<comment> \<open>\<open>binascii.hexlify\<close>\<close>
  "hexlify b = concat (map (\<lambda>c. [hex_digit (of_char c div 16), hex_digit (of_char c)]) b)"

definition DB_getid :: "('c, 'cur, 'row) sqlite3 \<Rightarrow> 'c \<Rightarrow> error + string" where
  "DB_getid S conn =
     bindE (select_kw S DB_table conn [(''key'', SqlText ''id'')]) (\<lambda>cur.
     bindE (getattr_buf S (Inl cur) ''value'') (\<lambda>v.
     case v of None \<Rightarrow> Inl TypeError | Some b \<Rightarrow> Inr (hexlify b)))"

definition DB_getdata ::
  "('c, 'cur, 'row) sqlite3 \<Rightarrow> 'c \<Rightarrow> string \<Rightarrow> error + getdata_result" where
  "DB_getdata S conn key =
     (if key = ''id'' then Inl ReservedKey
      else bindE (select_kw S DB_table conn [(''key'', SqlText key)]) (\<lambda>rows.
        if cursor_bool S rows
        then bindE (cursor_getitem S rows 0) (\<lambda>row.
             bindE (getattr_buf S (Inr row) ''value'') (\<lambda>v.
             bindE (getattr_num S (Inr row) ''update_time'') (\<lambda>t.
             Inr (ReturnsTuple v (Some t)))))
        else Inr (ReturnsTuple None None)))"


text \<open>
  \<open>DB.setdata\<close> has no \<open>return\<close> statement: when it ends without an exception
  it returns \<open>None\<close>.
\<close>

definition DB_setdata ::
  "('c, 'cur, 'row) sqlite3 \<Rightarrow> int \<Rightarrow> 'c \<Rightarrow> string \<Rightarrow> string \<Rightarrow> 'c \<times> (error + int option)" where
  "DB_setdata S now conn key0 data =
     (if key0 = ''id'' then (conn, Inl ReservedKey)
      else if key0 = [] then (conn, Inl InvalidKey)
      else
        let key = (if hd key0 = CHR ''/'' then tl key0 else key0) in
        case update S DB_table conn [(''key'', SqlText key)]
               [(''value'', SqlBlob data), (''update_time'', SqlInt now)] True of
          (conn', Inl e) \<Rightarrow> (conn', Inl e)
        | (conn', Inr _) \<Rightarrow> (conn', Inr None))"

fun rows_dict ::
  "('c, 'cur, 'row) sqlite3 \<Rightarrow> 'row list \<Rightarrow> (string \<rightharpoonup> int) \<Rightarrow> error + (string \<rightharpoonup> int)" where
  \<comment> \<open>\<open>dict((row.key, row.update_time) for row in rows)\<close>\<close>
  "rows_dict S [] d = Inr d"
| "rows_dict S (row # rows) d =
     bindE (getattr_str S (Inr row) ''key'') (\<lambda>k.
     bindE (getattr_num S (Inr row) ''update_time'') (\<lambda>t.
     rows_dict S rows (d(k \<mapsto> t))))"

definition DB_listkeys ::
  "('c, 'cur, 'row) sqlite3 \<Rightarrow> 'c \<Rightarrow> string option \<Rightarrow> error + (string \<rightharpoonup> int)" where
  "DB_listkeys S conn prefix =
     bindE (select_kw S DB_table conn []) (\<lambda>cur. rows_dict S (cursor_iter S cur) Map.empty)"

definition DB_getobj ::
  "'o library \<Rightarrow> ('c, 'cur, 'row) sqlite3 \<Rightarrow> db_store \<Rightarrow> 'c \<Rightarrow> string \<Rightarrow> string option \<Rightarrow>
   error + ('o option \<times> int option)" where
  "DB_getobj L S self conn key crypt_pwd =
     getobj L (datastore.truncate self) (DB_getdata S conn) key crypt_pwd"

definition DB_setobj ::
  "'o library \<Rightarrow> ('c, 'cur, 'row) sqlite3 \<Rightarrow> db_store \<Rightarrow> int \<Rightarrow> 'c \<Rightarrow> string \<Rightarrow> 'o \<Rightarrow>
   setobj_args \<Rightarrow> string \<Rightarrow> 'c \<times> (error + int option)" where
  "DB_setobj L S self now conn key obj a urandom16 =
     setobj L (datastore.truncate self) (DB_setdata S now) conn key obj a urandom16"

section \<open>Notions used in the statements\<close>

definition header_byte :: "int \<Rightarrow> int \<Rightarrow> int \<Rightarrow> int" where
  \<comment> \<open>the expression \<open>(comp_algo << 5) | (crypt_algo << 2) | protect_algo\<close> of \<open>setobj\<close>\<close>
  "header_byte ca cra pa = push_bit 5 ca OR push_bit 2 cra OR pa"

text \<open>
  The laws of the libraries that the round trip rests on: at a level from 1 to 9
  compression succeeds and decompression undoes it, AES in CFB mode under a
  key that is a SHA-256 digest and a 16 byte IV succeeds and decryption undoes
  it, and the Windows call protects every buffer and unprotects it again.
\<close>

definition library_sound :: "'o library \<Rightarrow> bool" where
  "library_sound L \<longleftrightarrow>
     (\<forall>b l. 1 \<le> l \<and> l \<le> 9 \<longrightarrow>
        (\<exists>c. zlib_compress L b l = Inr c \<and> zlib_decompress L c = Inr b)) \<and>
     (\<forall>b l. 1 \<le> l \<and> l \<le> 9 \<longrightarrow>
        (\<exists>c. bz2_compress L b l = Inr c \<and> bz2_decompress L c = Inr b)) \<and>
     (\<forall>p iv b. length iv = 16 \<longrightarrow>
        (\<exists>c. AES_CFB_encrypt L (sha256_digest L p) iv b = Inr c \<and>
             AES_CFB_decrypt L (sha256_digest L p) iv c = Inr b)) \<and>
     (\<forall>b. \<exists>c. CryptProtectData L b extraEntropy = Some c \<and>
              CryptUnprotectData L c extraEntropy = Some b)"

definition serializable :: "'o library \<Rightarrow> 'o \<Rightarrow> bool" where
  \<comment> \<open>pickling the object succeeds and unpickling gives it back\<close>
  "serializable L obj \<longleftrightarrow>
     (\<exists>b. cPickle_dumps L obj = Inr b \<and> cPickle_loads L b = Inr obj)"

text \<open>
  A valid combination of parameters for a call of \<open>setobj\<close> on a store: each
  effective algorithm code (the argument, or the store's default) belongs to its
  enumeration, the effective level is from 1 to 9 when there is compression, and
  the effective password is not empty when the encryption is AES.
\<close>

definition valid_params :: "datastore \<Rightarrow> setobj_args \<Rightarrow> bool" where
  "valid_params self a \<longleftrightarrow>
     validate CompAlgo (or_default (arg_comp_algo a) (priv_comp_algo self)) \<and>
     (or_default (arg_comp_algo a) (priv_comp_algo self) \<noteq> uncompressed \<longrightarrow>
        1 \<le> or_default (arg_comp_level a) (priv_comp_level self) \<and>
        or_default (arg_comp_level a) (priv_comp_level self) \<le> 9) \<and>
     validate CryptAlgo (or_default (arg_crypt_algo a) (priv_crypt_algo self)) \<and>
     (or_default (arg_crypt_algo a) (priv_crypt_algo self) = AES \<longrightarrow>
        truthy_pwd (pwd_or_default (arg_crypt_pwd a) (priv_crypt_pwd self))) \<and>
     validate ProtectAlgo (or_default (arg_protect_algo a) (priv_protect_algo self))"

subsection \<open>Concrete inputs\<close>

text \<open>
  A small library that has the laws above, to run the model on concrete inputs:
  the stored objects are strings, and every transformation marks or reverses
  its input so that each stage of the pipeline shows in the result.
\<close>

definition unmark :: "char \<Rightarrow> string \<Rightarrow> error + string" where
  "unmark m b = (case b of [] \<Rightarrow> Inl ExternalError
                 | c # rest \<Rightarrow> if c = m then Inr rest else Inl ExternalError)"

definition example_library :: "string library" where
  "example_library =
     \<lparr> cPickle_dumps = (\<lambda>obj. Inr (CHR ''S'' # obj)),
       cPickle_loads = unmark CHR ''S'',
       zlib_compress = (\<lambda>b l. if 1 \<le> l \<and> l \<le> 9 then Inr (CHR ''z'' # b)
                               else Inl ExternalError),
       zlib_decompress = unmark CHR ''z'',
       bz2_compress = (\<lambda>b l. if 1 \<le> l \<and> l \<le> 9 then Inr (CHR ''b'' # b)
                              else Inl ExternalError),
       bz2_decompress = unmark CHR ''b'',
       sha256_digest = (\<lambda>p. p),
       AES_CFB_encrypt = (\<lambda>k iv b. Inr (rev b)),
       AES_CFB_decrypt = (\<lambda>k iv c. Inr (rev c)),
       CryptProtectData = (\<lambda>b e. Some (CHR ''P'' # b)),
       CryptUnprotectData = (\<lambda>c e. case unmark CHR ''P'' c of Inl _ \<Rightarrow> None
                                     | Inr b \<Rightarrow> Some b) \<rparr>"

definition example_iv :: string where
  "example_iv = ''0123456789abcdef''"

definition all_args :: setobj_args where
  \<comment> \<open>zlib at level 9, AES with a password, DPAPI\<close>
  "all_args = \<lparr> arg_comp_algo = Some zlib, arg_comp_level = Some 9,
                arg_crypt_algo = Some AES, arg_crypt_pwd = Some ''pw'',
                arg_protect_algo = Some DPAPI \<rparr>"

text \<open>
  A directory store at \<open>/store\<close>: the object \<open>Dir('/store')\<close> and the file system
  its construction leaves behind from an empty root at time 10.
\<close>

definition example_dir :: dir_store where
  "example_dir = datastore.extend DataStore_default (dir_store.fields [''store''])"

definition empty_fs :: node where
  "empty_fs = Directory 0 []"

definition example_fs :: node where
  "example_fs = Directory 10 [(''store'', Directory 10 [(''id'', File ''0123abcd'' 10)])]"

text \<open>
  An sqlite3 binding to run the relational backend on: every statement succeeds
  and leaves the database, a value of type \<open>unit\<close>, as it is.
\<close>

definition example_sqlite :: "(unit, unit, unit) sqlite3" where
  "example_sqlite =
     \<lparr> execute = (\<lambda>conn query params. (conn, Inr ())),
       cursor_bool = (\<lambda>cur. True),
       cursor_getitem = (\<lambda>cur i. Inl TypeError),
       cursor_iter = (\<lambda>cur. []),
       lastrowid = (\<lambda>cur. 0),
       getattr_buf = (\<lambda>x attr. Inl AttributeError),
       getattr_num = (\<lambda>x attr. Inl AttributeError),
       getattr_str = (\<lambda>x attr. Inl AttributeError),
       format = (\<lambda>v. case v of SqlText s \<Rightarrow> s | _ \<Rightarrow> []) \<rparr>"


section \<open>Basic facts\<close>

lemma bindE_Inr [simp]: "bindE (Inr x) f = f x"
  by (simp add: bindE_def)

lemma bindE_Inl [simp]: "bindE (Inl e) f = Inl e"
  by (simp add: bindE_def)

lemma validate_CompAlgo: "validate CompAlgo x \<longleftrightarrow> x = 0 \<or> x = 1 \<or> x = 2"
  by (auto simp: validate_def CompAlgo_def Enum_def upt_rec)

lemma validate_CryptAlgo: "validate CryptAlgo x \<longleftrightarrow> x = 0 \<or> x = 1"
  by (auto simp: validate_def CryptAlgo_def Enum_def upt_rec)

lemma validate_ProtectAlgo: "validate ProtectAlgo x \<longleftrightarrow> x = 0 \<or> x = 1"
  by (auto simp: validate_def ProtectAlgo_def Enum_def upt_rec)

lemma header_fields:
  assumes "validate CompAlgo ca" "validate CryptAlgo cra" "validate ProtectAlgo pa"
  shows "0 \<le> push_bit 5 ca OR push_bit 2 cra OR pa"
    and "push_bit 5 ca OR push_bit 2 cra OR pa < 256"
    and "drop_bit 5 ((push_bit 5 ca OR push_bit 2 cra OR pa) AND 224) = ca"
    and "drop_bit 2 ((push_bit 5 ca OR push_bit 2 cra OR pa) AND 28) = cra"
    and "(push_bit 5 ca OR push_bit 2 cra OR pa) AND 3 = pa"
  using assms unfolding validate_CompAlgo validate_CryptAlgo validate_ProtectAlgo
  by auto

lemma compress_step:
  assumes "library_sound L" "validate CompAlgo ca" "ca \<noteq> uncompressed \<longrightarrow> 1 \<le> l \<and> l \<le> 9"
  shows "\<exists>b1. (if ca = zlib then with_level (zlib_compress L b0) (Some l)
               else if ca = bz2 then with_level (bz2_compress L b0) (Some l)
               else Inr b0) = Inr b1 \<and>
              (if ca = zlib then zlib_decompress L b1
               else if ca = bz2 then bz2_decompress L b1
               else Inr b1) = Inr b0"
proof -
  from assms(1) have z: "\<exists>c. zlib_compress L b0 l = Inr c \<and> zlib_decompress L c = Inr b0"
      if "1 \<le> l \<and> l \<le> 9"
    using that unfolding library_sound_def by blast
  from assms(1) have b: "\<exists>c. bz2_compress L b0 l = Inr c \<and> bz2_decompress L c = Inr b0"
      if "1 \<le> l \<and> l \<le> 9"
    using that unfolding library_sound_def by blast
  from assms(2) consider "ca = 0" | "ca = 1" | "ca = 2"
    unfolding validate_CompAlgo by blast
  then show ?thesis
  proof cases
    case 1
    then show ?thesis by (simp add: zlib_def bz2_def)
  next
    case 2
    with assms(3) z show ?thesis by (auto simp: zlib_def uncompressed_def with_level_def)
  next
    case 3
    with assms(3) b show ?thesis by (auto simp: zlib_def bz2_def uncompressed_def with_level_def)
  qed
qed

lemma encrypt_step:
  assumes "library_sound L" "length iv = 16" "truthy_pwd pwd"
  shows "\<exists>c. bindE (sha256 L pwd) (\<lambda>crypt_key.
               bindE (AES_CFB_encrypt L crypt_key iv b1) (\<lambda>c. Inr (iv @ c))) = Inr (iv @ c) \<and>
             bindE (sha256 L pwd) (\<lambda>crypt_key. AES_CFB_decrypt L crypt_key iv c) = Inr b1"
proof -
  from assms(3) obtain p where p: "pwd = Some p"
    by (auto simp: truthy_pwd_def split: option.splits)
  from assms(1,2) obtain c where
    "AES_CFB_encrypt L (sha256_digest L p) iv b1 = Inr c"
    "AES_CFB_decrypt L (sha256_digest L p) iv c = Inr b1"
    unfolding library_sound_def by blast
  with p show ?thesis by (auto simp: sha256_def)
qed

lemma protect_step:
  assumes "library_sound L"
  shows "decryptData L (cryptData L b) = b"
proof -
  from assms obtain c where "CryptProtectData L b extraEntropy = Some c"
    "CryptUnprotectData L c extraEntropy = Some b"
    unfolding library_sound_def by blast
  then show ?thesis
    by (simp add: decryptData_def cryptData_def Win32CryptProtectData_def
        Win32CryptUnprotectData_def)
qed

lemma setobj_buffer_valid:
  assumes vp: "valid_params self a"
  shows "setobj_buffer L self obj a urandom16 =
    (let ca = or_default (arg_comp_algo a) (priv_comp_algo self);
         l = or_default (arg_comp_level a) (priv_comp_level self);
         cra = or_default (arg_crypt_algo a) (priv_crypt_algo self);
         pwd = pwd_or_default (arg_crypt_pwd a) (priv_crypt_pwd self);
         pa = or_default (arg_protect_algo a) (priv_protect_algo self)
     in bindE (cPickle_dumps L obj) (\<lambda>buf0.
        bindE (if ca = zlib then with_level (zlib_compress L buf0) (Some l)
               else if ca = bz2 then with_level (bz2_compress L buf0) (Some l)
               else Inr buf0) (\<lambda>buf1.
        bindE (if cra = AES
               then bindE (sha256 L pwd) (\<lambda>crypt_key.
                    bindE (AES_CFB_encrypt L crypt_key urandom16 buf1)
                      (\<lambda>c. Inr (urandom16 @ c)))
               else Inr buf1) (\<lambda>buf2.
        Inr (char_of (0::int) # char_of (header_byte ca cra pa) #
             (if pa = DPAPI then cryptData L buf2 else buf2))))))"
proof -
  define ca where "ca = or_default (arg_comp_algo a) (priv_comp_algo self)"
  define l where "l = or_default (arg_comp_level a) (priv_comp_level self)"
  define cra where "cra = or_default (arg_crypt_algo a) (priv_crypt_algo self)"
  define pwd where "pwd = pwd_or_default (arg_crypt_pwd a) (priv_crypt_pwd self)"
  define pa where "pa = or_default (arg_protect_algo a) (priv_protect_algo self)"
  note defs = ca_def[symmetric] l_def[symmetric] cra_def[symmetric] pwd_def[symmetric]
    pa_def[symmetric]
  from vp have v: "validate CompAlgo ca" "validate CryptAlgo cra" "validate ProtectAlgo pa"
    and lv: "ca \<noteq> uncompressed \<Longrightarrow> 1 \<le> l \<and> l \<le> 9"
    and pw: "cra = AES \<Longrightarrow> truthy_pwd pwd"
    unfolding valid_params_def defs by simp_all
  have ch: "chr 0 = Inr (char_of (0::int))"
    "chr (push_bit 5 ca OR push_bit 2 cra OR pa) = Inr (char_of (header_byte ca cra pa))"
    using header_fields(1,2)[OF v] by (simp_all add: chr_def header_byte_def)
  note algo = uncompressed_def zlib_def bz2_def unencrypted_def AES_def
  from v(1,2) consider
      "ca = 0" "cra = 0" | "ca = 1" "cra = 0" | "ca = 2" "cra = 0"
    | "ca = 0" "cra = 1" | "ca = 1" "cra = 1" | "ca = 2" "cra = 1"
    unfolding validate_CompAlgo validate_CryptAlgo by blast
  then show ?thesis
  proof cases
    case 1
    then show ?thesis
      using v(3) ch unfolding setobj_buffer_def Let_def defs
      by (simp add: algo validate_CompAlgo validate_CryptAlgo)
  next
    case 2
    then show ?thesis
      using v(3) ch lv unfolding setobj_buffer_def Let_def defs
      by (simp add: algo validate_CompAlgo validate_CryptAlgo level_ok_def)
  next
    case 3
    then show ?thesis
      using v(3) ch lv unfolding setobj_buffer_def Let_def defs
      by (simp add: algo validate_CompAlgo validate_CryptAlgo level_ok_def)
  next
    case 4
    then show ?thesis
      using v(3) ch pw unfolding setobj_buffer_def Let_def defs
      by (simp add: algo validate_CompAlgo validate_CryptAlgo)
  next
    case 5
    then show ?thesis
      using v(3) ch lv pw unfolding setobj_buffer_def Let_def defs
      by (simp add: algo validate_CompAlgo validate_CryptAlgo level_ok_def)
  next
    case 6
    then show ?thesis
      using v(3) ch lv pw unfolding setobj_buffer_def Let_def defs
      by (simp add: algo validate_CompAlgo validate_CryptAlgo level_ok_def)
  qed
qed


lemma getobj_decode_header:
  assumes v: "validate CompAlgo ca" "validate CryptAlgo cra" "validate ProtectAlgo pa"
  shows "getobj_decode L self crypt_pwd (char_of (0::int) # char_of (header_byte ca cra pa) # payload) =
    (let buf1 = (if pa = DPAPI then decryptData L payload else payload) in
     bindE (if cra = AES
            then (let pwd = pwd_or_default crypt_pwd (priv_crypt_pwd self) in
                  if \<not> truthy_pwd pwd then Inl AssertionError else
                  bindE (sha256 L pwd) (\<lambda>crypt_key.
                    AES_CFB_decrypt L crypt_key (take 16 buf1) (drop 16 buf1)))
            else Inr buf1) (\<lambda>buf2.
     bindE (if ca = zlib then zlib_decompress L buf2
            else if ca = bz2 then bz2_decompress L buf2
            else Inr buf2) (\<lambda>buf3.
     cPickle_loads L buf3)))"
proof -
  define hb where "hb = header_byte ca cra pa"
  have h: "ord (char_of hb) = hb"
    using header_fields(1,2)[OF v] by (simp add: ord_def header_byte_def hb_def)
  have f: "drop_bit 5 (hb AND 224) = ca" "drop_bit 2 (hb AND 28) = cra" "hb AND 3 = pa"
    using header_fields(3,4,5)[OF v] by (simp_all add: header_byte_def hb_def)
  have f': "drop_bit 5 hb AND 7 = ca" "drop_bit 2 hb AND 7 = cra"
    using f(1,2) by simp_all
  have z: "ord (char_of (0::int)) = 0" by (simp add: ord_def)
  show ?thesis
    unfolding getobj_decode_def hb_def[symmetric]
    by (simp add: Let_def h f f' z v split del: if_split cong: if_cong)
qed

lemma decode_encode:
  assumes L: "library_sound L" and ser: "serializable L obj"
    and vp: "valid_params self a" and iv: "length urandom16 = 16"
  shows "\<exists>buf. setobj_buffer L self obj a urandom16 = Inr buf \<and> buf \<noteq> [] \<and>
               getobj_decode L self (arg_crypt_pwd a) buf = Inr obj"
proof -
  define ca where "ca = or_default (arg_comp_algo a) (priv_comp_algo self)"
  define l where "l = or_default (arg_comp_level a) (priv_comp_level self)"
  define cra where "cra = or_default (arg_crypt_algo a) (priv_crypt_algo self)"
  define pwd where "pwd = pwd_or_default (arg_crypt_pwd a) (priv_crypt_pwd self)"
  define pa where "pa = or_default (arg_protect_algo a) (priv_protect_algo self)"
  note defs = ca_def[symmetric] l_def[symmetric] cra_def[symmetric] pwd_def[symmetric]
    pa_def[symmetric]
  from vp have v: "validate CompAlgo ca" "validate CryptAlgo cra" "validate ProtectAlgo pa"
    and lv: "ca \<noteq> uncompressed \<longrightarrow> 1 \<le> l \<and> l \<le> 9"
    and pw: "cra = AES \<longrightarrow> truthy_pwd pwd"
    unfolding valid_params_def defs by simp_all
  from ser obtain b0 where b0: "cPickle_dumps L obj = Inr b0" "cPickle_loads L b0 = Inr obj"
    unfolding serializable_def by blast
  from compress_step[OF L v(1) lv, of b0] obtain b1 where
    b1: "(if ca = zlib then with_level (zlib_compress L b0) (Some l)
          else if ca = bz2 then with_level (bz2_compress L b0) (Some l)
          else Inr b0) = Inr b1"
        "(if ca = zlib then zlib_decompress L b1
          else if ca = bz2 then bz2_decompress L b1
          else Inr b1) = Inr b0"
    by blast
  have "\<exists>b2. (if cra = AES
               then bindE (sha256 L pwd) (\<lambda>crypt_key.
                    bindE (AES_CFB_encrypt L crypt_key urandom16 b1)
                      (\<lambda>c. Inr (urandom16 @ c)))
               else Inr b1) = Inr b2 \<and>
        (if cra = AES
            then (if \<not> truthy_pwd pwd then Inl AssertionError else
                  bindE (sha256 L pwd) (\<lambda>crypt_key.
                    AES_CFB_decrypt L crypt_key (take 16 b2) (drop 16 b2)))
            else Inr b2) = Inr b1"
  proof (cases "cra = AES")
    case True
    with pw have t: "truthy_pwd pwd" by simp
    from encrypt_step[OF L iv t, of b1] obtain c where
      "bindE (sha256 L pwd) (\<lambda>crypt_key.
               bindE (AES_CFB_encrypt L crypt_key urandom16 b1) (\<lambda>c. Inr (urandom16 @ c)))
            = Inr (urandom16 @ c)"
      "bindE (sha256 L pwd) (\<lambda>crypt_key. AES_CFB_decrypt L crypt_key urandom16 c) = Inr b1"
      by blast
    with True t iv show ?thesis by simp
  next
    case False
    then show ?thesis by simp
  qed
  then obtain b2 where
    b2: "(if cra = AES
               then bindE (sha256 L pwd) (\<lambda>crypt_key.
                    bindE (AES_CFB_encrypt L crypt_key urandom16 b1)
                      (\<lambda>c. Inr (urandom16 @ c)))
               else Inr b1) = Inr b2"
        "(if cra = AES
            then (if \<not> truthy_pwd pwd then Inl AssertionError else
                  bindE (sha256 L pwd) (\<lambda>crypt_key.
                    AES_CFB_decrypt L crypt_key (take 16 b2) (drop 16 b2)))
            else Inr b2) = Inr b1"
    by blast
  define b3 where "b3 = (if pa = DPAPI then cryptData L b2 else b2)"
  have b3: "(if pa = DPAPI then decryptData L b3 else b3) = b2"
    unfolding b3_def using protect_step[OF L] by simp
  have enc: "setobj_buffer L self obj a urandom16 =
      Inr (char_of (0::int) # char_of (header_byte ca cra pa) # b3)"
    unfolding setobj_buffer_valid[OF vp] Let_def defs b3_def
    by (simp only: b0 b1 b2 bindE_Inr)
  have dec: "getobj_decode L self (arg_crypt_pwd a)
       (char_of (0::int) # char_of (header_byte ca cra pa) # b3) = Inr obj"
    unfolding getobj_decode_header[OF v] Let_def defs b3
    by (simp only: b0 b1 b2 bindE_Inr)
  from enc dec show ?thesis by simp
qed


lemma setobj_buffer_succeeds:
  assumes "library_sound L" "serializable L obj" "valid_params self a" "length urandom16 = 16"
  shows "\<exists>buf. setobj_buffer L self obj a urandom16 = Inr buf"
  using decode_encode[OF assms] by blast

lemma bindE_assoc: "bindE (bindE m f) g = bindE m (\<lambda>x. bindE (f x) g)"
  by (cases m) simp_all

section \<open>The round trip\<close>

text \<open>
  The codec by itself round-trips (\<open>decode_encode\<close>): for every object that
  serializes and every valid combination of parameters, decoding the buffer
  that \<open>setobj\<close> hands to the backend, with the same password, returns the
  object. Hence \<open>getobj\<close> after \<open>setobj\<close> returns the object at a backend and a key
  where \<open>getdata\<close> returns the buffer that \<open>setdata\<close> stored; the directory backend
  does so for the key \<open>k\<close> of the example.
\<close>

lemma getobj_after_setobj:
  assumes "library_sound L" and "serializable L obj" and "valid_params self a"
    and "length urandom16 = 16"
    and backend: "\<forall>buf. \<exists>s' r t. setdata s key buf = (s', Inr r) \<and>
                    getdata s' key = Inr (ReturnsTuple (Some buf) t)"
  shows "\<exists>s' r t. setobj L self setdata s key obj a urandom16 = (s', Inr r) \<and>
                  getobj L self (getdata s') key (arg_crypt_pwd a) = Inr (Some obj, t)"
proof -
  from decode_encode[OF assms(1-4)] obtain buf where
    enc: "setobj_buffer L self obj a urandom16 = Inr buf" and ne: "buf \<noteq> []"
    and dec: "getobj_decode L self (arg_crypt_pwd a) buf = Inr obj"
    by blast
  from backend obtain s' r t where
    st: "setdata s key buf = (s', Inr r)"
    and gt: "getdata s' key = Inr (ReturnsTuple (Some buf) t)"
    by blast
  have "setobj L self setdata s key obj a urandom16 = (s', Inr r)"
    by (simp add: setobj_def enc st)
  moreover have "getobj L self (getdata s') key (arg_crypt_pwd a) = Inr (Some obj, t)"
    by (simp add: getobj_def gt ne dec)
  ultimately show ?thesis by blast
qed

lemma example_library_sound: "library_sound example_library"
  by (simp add: library_sound_def example_library_def unmark_def)

lemma example_dir_backend:
  "\<exists>s' r t. Dir_setdata example_dir 20 example_fs ''k'' buf = (s', Inr r) \<and>
     Dir_getdata example_dir s' ''k'' = Inr (ReturnsTuple (Some buf) t)"
  by (simp add: Dir_setdata_def Dir_getdata_def Dir_listkeys_def Dir_getupdtime_def
      example_dir_def example_fs_def dir_store.defs datastore.defs
      path_join_def write_file_def read_file_def getmtime_def isdir_def Let_def)

lemma getobj_after_setobj_example:
  "library_sound example_library \<and> serializable example_library ''hello'' \<and>
   valid_params (datastore.truncate example_dir) all_args \<and> length example_iv = 16 \<and>
   (\<exists>s' r t.
      Dir_setobj example_library example_dir 20 example_fs ''k'' ''hello'' all_args example_iv
        = (s', Inr r) \<and>
      Dir_getobj example_library example_dir s' ''k'' (Some ''pw'') = Inr (Some ''hello'', t))"
proof -
  have 1: "library_sound example_library" by (rule example_library_sound)
  have 2: "serializable example_library ''hello''"
    by (simp add: serializable_def example_library_def unmark_def)
  have 3: "valid_params (datastore.truncate example_dir) all_args"
    by (simp add: valid_params_def example_dir_def all_args_def or_default_def
        pwd_or_default_def truthy_pwd_def zlib_def AES_def DPAPI_def uncompressed_def
        validate_CompAlgo validate_CryptAlgo validate_ProtectAlgo)
  have 4: "length example_iv = 16" by (simp add: example_iv_def)
  have 5: "\<forall>buf. \<exists>s' r t. Dir_setdata example_dir 20 example_fs ''k'' buf = (s', Inr r) \<and>
     Dir_getdata example_dir s' ''k'' = Inr (ReturnsTuple (Some buf) t)"
    using example_dir_backend by blast
  have pw: "arg_crypt_pwd all_args = Some ''pw''" by (simp add: all_args_def)
  note rt = getobj_after_setobj[where L = example_library and obj = "''hello''"
      and self = "datastore.truncate example_dir" and a = all_args
      and ?urandom16.0 = example_iv and setdata = "Dir_setdata example_dir 20"
      and s = example_fs and key = "''k''" and getdata = "Dir_getdata example_dir"]
  from rt[OF 1 2 3 4 5] 1 2 3 4 show ?thesis
    by (simp add: Dir_setobj_def Dir_getobj_def pw)
qed

lemma or_default_Some [simp]: "or_default (Some v) d = v"
  by (simp add: or_default_def)

lemma or_default_None [simp]: "or_default None d = d"
  by (simp add: or_default_def)

lemma char_of_0: "char_of (0::int) = CHR 0x00"
  by (simp add: char_of_def bit_simps)

lemma char_of_1: "char_of (1::int) = CHR 0x01"
  by (simp add: char_of_def bit_simps)

lemma valid_params_unprotected:
  "valid_params self a \<Longrightarrow> valid_params self (a\<lparr>arg_protect_algo := Some unprotected\<rparr>)"
  by (simp add: valid_params_def validate_ProtectAlgo unprotected_def)

section \<open>Where the protection is applied\<close>

lemma getobj_decode_version:
  "ord b0 \<noteq> 0 \<Longrightarrow> getobj_decode L self crypt_pwd (b0 # rest) = Inl AssertionError"
  by (simp add: getobj_decode_def Let_def)

lemma getobj_decode_invalid:
  assumes "\<not> (validate CompAlgo (drop_bit 5 (ord b1 AND 224)) \<and>
              validate CryptAlgo (drop_bit 2 (ord b1 AND 28)) \<and>
              validate ProtectAlgo (ord b1 AND 3))"
  shows "getobj_decode L self crypt_pwd (b0 # b1 # payload) = Inl AssertionError"
proof -
  define h where "h = ord b1"
  define ca where "ca = drop_bit 5 (h AND 224)"
  define cra where "cra = drop_bit 2 (h AND 28)"
  define pa where "pa = h AND 3"
  from assms have "\<not> validate CompAlgo ca \<or> \<not> validate CryptAlgo cra \<or> \<not> validate ProtectAlgo pa"
    unfolding ca_def cra_def pa_def h_def by blast
  then show ?thesis
    unfolding getobj_decode_def Let_def list.case list.sel h_def[symmetric]
      ca_def[symmetric] cra_def[symmetric] pa_def[symmetric]
    by auto
qed

lemma getobj_decode_protected_only:
  "getobj_decode L self crypt_pwd
     (char_of (0::int) # char_of (header_byte uncompressed unencrypted DPAPI) # payload) =
   cPickle_loads L (decryptData L payload)"
proof -
  have v: "validate CompAlgo uncompressed" "validate CryptAlgo unencrypted"
    "validate ProtectAlgo DPAPI"
    by (simp_all add: validate_CompAlgo validate_CryptAlgo validate_ProtectAlgo
        uncompressed_def unencrypted_def DPAPI_def)
  show ?thesis
    unfolding getobj_decode_header[OF v]
    by (simp add: Let_def uncompressed_def unencrypted_def zlib_def bz2_def AES_def)
qed


text \<open>
  Claim C3, as amended: with protection enabled (DPAPI) and valid parameters,
  \<open>setobj\<close> protects the payload only, that is the bytes that follow the two header
  bytes of the envelope the same call builds without protection, and then puts
  the version byte and the flags byte (with the protection bit set) in front,
  unprotected. \<open>getobj\<close> reads the version and the flags from the first two
  stored bytes as they are: it raises AssertionError when the first byte is not
  0 and when a code in the second byte is not valid, whatever unprotecting
  would make of the buffer. Only then does it unprotect the bytes after the
  header: with no compression and no encryption flagged the result is the
  unpickled unprotected payload, and with any valid codes it is what decoding
  the unprotected payload under the same header without the protection bit
  gives.
\<close>

theorem protection_wraps_payload:
  assumes vp: "valid_params self a"
    and pa: "or_default (arg_protect_algo a) (priv_protect_algo self) = DPAPI"
  shows "setobj_buffer L self obj a urandom16 =
           bindE (setobj_buffer L self obj (a\<lparr>arg_protect_algo := Some unprotected\<rparr>) urandom16)
             (\<lambda>plain. Inr (char_of (0::int) #
                 char_of (header_byte (or_default (arg_comp_algo a) (priv_comp_algo self))
                            (or_default (arg_crypt_algo a) (priv_crypt_algo self)) DPAPI) #
                 cryptData L (drop 2 plain))) \<and>
         (ord b0 \<noteq> 0 \<longrightarrow>
            getobj_decode L self crypt_pwd (b0 # rest) = Inl AssertionError) \<and>
         (\<not> (validate CompAlgo (drop_bit 5 (ord c1 AND 224)) \<and>
             validate CryptAlgo (drop_bit 2 (ord c1 AND 28)) \<and>
             validate ProtectAlgo (ord c1 AND 3)) \<longrightarrow>
            getobj_decode L self crypt_pwd (c0 # c1 # tail) = Inl AssertionError) \<and>
         getobj_decode L self crypt_pwd
           (char_of (0::int) # char_of (header_byte uncompressed unencrypted DPAPI) # payload) =
         cPickle_loads L (decryptData L payload) \<and>
         getobj_decode L self crypt_pwd
           (char_of (0::int) #
            char_of (header_byte (or_default (arg_comp_algo a) (priv_comp_algo self))
                       (or_default (arg_crypt_algo a) (priv_crypt_algo self)) DPAPI) # payload) =
         getobj_decode L self crypt_pwd
           (char_of (0::int) #
            char_of (header_byte (or_default (arg_comp_algo a) (priv_comp_algo self))
                       (or_default (arg_crypt_algo a) (priv_crypt_algo self)) unprotected) #
            decryptData L payload)"
proof -
  define ca where "ca = or_default (arg_comp_algo a) (priv_comp_algo self)"
  define cra where "cra = or_default (arg_crypt_algo a) (priv_crypt_algo self)"
  from vp have v: "validate CompAlgo ca" "validate CryptAlgo cra"
    unfolding valid_params_def ca_def cra_def by simp_all
  have vd: "validate ProtectAlgo DPAPI" "validate ProtectAlgo unprotected"
    by (simp_all add: validate_ProtectAlgo DPAPI_def unprotected_def)
  have ne: "unprotected \<noteq> DPAPI" by (simp add: DPAPI_def unprotected_def)
  have enc: "setobj_buffer L self obj a urandom16 =
           bindE (setobj_buffer L self obj (a\<lparr>arg_protect_algo := Some unprotected\<rparr>) urandom16)
             (\<lambda>plain. Inr (char_of (0::int) # char_of (header_byte ca cra DPAPI) #
                 cryptData L (drop 2 plain)))"
    unfolding ca_def cra_def setobj_buffer_valid[OF vp]
      setobj_buffer_valid[OF valid_params_unprotected[OF vp]]
    by (simp add: Let_def pa ne bindE_assoc)
  have dec: "getobj_decode L self crypt_pwd
      (char_of (0::int) # char_of (header_byte ca cra DPAPI) # payload) =
     getobj_decode L self crypt_pwd
      (char_of (0::int) # char_of (header_byte ca cra unprotected) # decryptData L payload)"
    unfolding getobj_decode_header[OF v vd(1)] getobj_decode_header[OF v vd(2)]
    by (simp add: ne)
  from enc dec show ?thesis
    unfolding ca_def cra_def
    using getobj_decode_version[of b0 L self crypt_pwd rest]
      getobj_decode_invalid[of c1 L self crypt_pwd c0 tail]
      getobj_decode_protected_only[of L self crypt_pwd payload]
    by blast
qed

theorem protection_wraps_payload_witness:
  "valid_params DataStore_default (no_args\<lparr>arg_protect_algo := Some DPAPI\<rparr>) \<and>
   or_default (arg_protect_algo (no_args\<lparr>arg_protect_algo := Some DPAPI\<rparr>))
     (priv_protect_algo DataStore_default) = DPAPI \<and>
   setobj_buffer example_library DataStore_default ''x''
     (no_args\<lparr>arg_protect_algo := Some DPAPI\<rparr>) example_iv =
     Inr (CHR 0x00 # CHR 0x01 # cryptData example_library ''Sx'') \<and>
   ord CHR ''P'' \<noteq> 0 \<and>
   getobj_decode example_library DataStore_default None
     (CHR ''P'' # [CHR 0x00, CHR 0x01, CHR ''S'', CHR ''x'']) = Inl AssertionError \<and>
   \<not> (validate CompAlgo (drop_bit 5 (ord CHR 0xFF AND 224)) \<and>
       validate CryptAlgo (drop_bit 2 (ord CHR 0xFF AND 28)) \<and>
       validate ProtectAlgo (ord CHR 0xFF AND 3)) \<and>
   getobj_decode example_library DataStore_default None (CHR 0x00 # CHR 0xFF # ''Sx'') =
     Inl AssertionError \<and>
   getobj_decode example_library DataStore_default None
     (CHR 0x00 # CHR 0x01 # cryptData example_library ''Sx'') = Inr ''x''"
proof -
  let ?a = "no_args\<lparr>arg_protect_algo := Some DPAPI\<rparr>"
  have 1: "valid_params DataStore_default ?a"
    by (simp add: valid_params_def DataStore_default_def no_args_def validate_CompAlgo
        validate_CryptAlgo validate_ProtectAlgo uncompressed_def unencrypted_def AES_def
        DPAPI_def)
  have 2: "or_default (arg_protect_algo ?a) (priv_protect_algo DataStore_default) = DPAPI"
    by simp
  have 3: "ord CHR ''P'' \<noteq> 0" by (simp add: ord_def)
  have 4: "\<not> (validate CompAlgo (drop_bit 5 (ord CHR 0xFF AND 224)) \<and>
       validate CryptAlgo (drop_bit 2 (ord CHR 0xFF AND 28)) \<and>
       validate ProtectAlgo (ord CHR 0xFF AND 3))"
    by (simp add: ord_def validate_CompAlgo)
  have plain: "setobj_buffer example_library DataStore_default ''x''
      (?a\<lparr>arg_protect_algo := Some unprotected\<rparr>) example_iv = Inr (CHR 0x00 # CHR 0x00 # ''Sx'')"
    by (simp add: setobj_buffer_def DataStore_default_def no_args_def validate_CompAlgo
        validate_CryptAlgo validate_ProtectAlgo uncompressed_def unencrypted_def AES_def
        DPAPI_def unprotected_def zlib_def bz2_def example_library_def chr_def Let_def
        char_of_0 char_of_1)
  have hb: "header_byte (or_default (arg_comp_algo ?a) (priv_comp_algo DataStore_default))
      (or_default (arg_crypt_algo ?a) (priv_crypt_algo DataStore_default)) DPAPI = 1"
    "header_byte uncompressed unencrypted DPAPI = 1"
    by (simp_all add: header_byte_def DataStore_default_def no_args_def uncompressed_def
        unencrypted_def DPAPI_def unprotected_def)
  have un: "cPickle_loads example_library
      (decryptData example_library (cryptData example_library ''Sx'')) = Inr ''x''"
    by (simp add: example_library_def unmark_def decryptData_def cryptData_def
        Win32CryptProtectData_def Win32CryptUnprotectData_def)
  note t = protection_wraps_payload[OF 1 2, where L = example_library and obj = "''x''"
      and ?urandom16.0 = example_iv and crypt_pwd = None and ?b0.0 = "CHR ''P''"
      and rest = "[CHR 0x00, CHR 0x01, CHR ''S'', CHR ''x'']" and ?c0.0 = "CHR 0x00"
      and ?c1.0 = "CHR 0xFF" and tail = "''Sx''"
      and payload = "cryptData example_library ''Sx''"]
  note e1 = t[THEN conjunct1]
  note e2 = t[THEN conjunct2, THEN conjunct1, THEN mp, OF 3]
  note e3 = t[THEN conjunct2, THEN conjunct2, THEN conjunct1, THEN mp, OF 4]
  note e4 = t[THEN conjunct2, THEN conjunct2, THEN conjunct2, THEN conjunct1]
  from e1 have e1': "setobj_buffer example_library DataStore_default ''x'' ?a example_iv =
     Inr (CHR 0x00 # CHR 0x01 # cryptData example_library ''Sx'')"
    unfolding plain hb by (simp add: char_of_0 char_of_1)
  from e4 have e4': "getobj_decode example_library DataStore_default None
     (CHR 0x00 # CHR 0x01 # cryptData example_library ''Sx'') = Inr ''x''"
    unfolding hb un by (simp add: char_of_0 char_of_1)
  from 1 2 3 4 e1' e2 e3 e4' show ?thesis by blast
qed

text \<open>
  The claim as stated fails: the stored bytes are not the protection of
  version, flags and payload together, and decoding such a buffer stops at the
  version check.
\<close>

theorem protection_wraps_everything_counterexample:
  "setobj_buffer example_library DataStore_default ''x''
     (no_args\<lparr>arg_protect_algo := Some DPAPI\<rparr>) example_iv =
     Inr [CHR 0x00, CHR 0x01, CHR ''P'', CHR ''S'', CHR ''x''] \<and>
   cryptData example_library [CHR 0x00, CHR 0x01, CHR ''S'', CHR ''x''] =
     [CHR ''P'', CHR 0x00, CHR 0x01, CHR ''S'', CHR ''x''] \<and>
   getobj_decode example_library DataStore_default None
     (cryptData example_library [CHR 0x00, CHR 0x01, CHR ''S'', CHR ''x'']) =
     Inl AssertionError"
  by (simp add: setobj_buffer_def getobj_decode_def DataStore_default_def no_args_def
      validate_CompAlgo validate_CryptAlgo validate_ProtectAlgo uncompressed_def
      unencrypted_def AES_def DPAPI_def unprotected_def zlib_def bz2_def example_library_def
      chr_def ord_def Let_def cryptData_def Win32CryptProtectData_def char_of_0 char_of_1)

section \<open>The directory backend\<close>

text \<open>
  What the directory backend does where the relational backend fails: its
  listing never holds the identity key and is restricted by a prefix, a key
  written with a leading slash is found without it and not with it, and
  \<open>setdata\<close> returns the time of the write.
\<close>

lemma DataStore_init_defaults:
  "DataStore_init uncompressed 5 unencrypted None unprotected = Inr DataStore_default"
  by (simp add: DataStore_init_def DataStore_default_def validate_CompAlgo validate_CryptAlgo
      validate_ProtectAlgo uncompressed_def unencrypted_def unprotected_def)

lemma Dir_listkeys_no_id: "Dir_listkeys self fs prefix ''id'' = None"
  by (simp add: Dir_listkeys_def Let_def)

lemma foldl_keys_prefix:
  assumes "\<And>k. m1 k = (if startswith k p then m2 k else None)"
  shows "foldl (\<lambda>keys f. if p \<noteq> [] \<and> \<not> startswith (str_join ''/'' (fst f)) p then keys
                          else keys(str_join ''/'' (fst f) \<mapsto> snd f)) m1 found k =
         (if startswith k p
          then foldl (\<lambda>keys f. keys(str_join ''/'' (fst f) \<mapsto> snd f)) m2 found k
          else None)"
  using assms
proof (induction found arbitrary: m1 m2)
  case Nil
  then show ?case by simp
next
  case (Cons f found)
  show ?case
    unfolding foldl_Cons
    by (rule Cons.IH) (auto simp: Cons.prems startswith_def)
qed

lemma Dir_listkeys_prefix:
  "Dir_listkeys self fs (Some p) k =
     (if startswith k p then Dir_listkeys self fs None k else None)"
proof (cases "k = ''id''")
  case True
  then show ?thesis by (simp add: Dir_listkeys_no_id)
next
  case False
  define found where "found = (case lookup (priv_path self) fs of
                     Some (Directory t entries) \<Rightarrow> walk (Directory t entries)
                   | _ \<Rightarrow> [])"
  have "foldl (\<lambda>keys f. if p \<noteq> [] \<and> \<not> startswith (str_join ''/'' (fst f)) p then keys
                          else keys(str_join ''/'' (fst f) \<mapsto> snd f)) Map.empty found k =
         (if startswith k p
          then foldl (\<lambda>keys f. keys(str_join ''/'' (fst f) \<mapsto> snd f)) Map.empty found k
          else None)"
    by (rule foldl_keys_prefix) simp
  with False show ?thesis
    unfolding Dir_listkeys_def Let_def found_def[symmetric] by simp
qed

lemma Dir_slash_key:
  "Dir_setdata example_dir 20 example_fs ''/a/b'' v =
     (Directory 10 [(''store'', Directory 20 [(''id'', File ''0123abcd'' 10),
                      (''a'', Directory 20 [(''b'', File v 20)])])], Inr (Some 20)) \<and>
   Dir_getdata example_dir
     (Directory 10 [(''store'', Directory 20 [(''id'', File ''0123abcd'' 10),
                      (''a'', Directory 20 [(''b'', File v 20)])])]) ''a/b'' =
     Inr (ReturnsTuple (Some v) (Some 20)) \<and>
   Dir_getdata example_dir
     (Directory 10 [(''store'', Directory 20 [(''id'', File ''0123abcd'' 10),
                      (''a'', Directory 20 [(''b'', File v 20)])])]) ''/a/b'' =
     Inr ReturnsNone"
  by (simp add: Dir_setdata_def Dir_getdata_def Dir_listkeys_def Dir_getupdtime_def
      example_dir_def example_fs_def dir_store.defs datastore.defs
      path_join_def write_file_def read_file_def getmtime_def isdir_def mkdir_def Let_def)

lemma lookup_put:
  "put p new now n = Some n' \<Longrightarrow> lookup p n' = Some new"
proof (induction p new now n arbitrary: n' rule: put.induct)
  case (1 new now n)
  then show ?case by simp
next
  case (2 name new now n)
  then show ?case by (auto simp: update_conv' split: node.splits)
next
  case (3 name v va new now n)
  from "3.prems" obtain t entries child child' where
    n: "n = Directory t entries" and c: "map_of entries name = Some child"
    and p: "put (v # va) new now child = Some child'"
    and n': "n' = Directory t (AList.update name child' entries)"
    by (auto split: node.splits option.splits)
  from "3.IH"[OF n c p] have "lookup (v # va) child' = Some new" .
  with n' show ?case by (simp add: update_conv')
qed

lemma Dir_setdata_returns_time:
  "Dir_setdata self now fs key data = (fs', Inr r) \<Longrightarrow> r = Some now"
  by (auto simp: Dir_setdata_def Let_def write_file_def getmtime_def
      split: if_splits prod.splits sum.splits option.splits dest!: lookup_put)

section \<open>The relational backend as written\<close>

text \<open>
  No call of \<open>select\<close> in datastore.py supplies \<open>cols\<close>, so each of them raises
  TypeError, and with it every method of \<open>DB\<close> that reaches the table.
\<close>

lemma select_kw_no_cols:
  "map_of kwargs ''cols'' = None \<Longrightarrow> select_kw S cls conn kwargs = Inl TypeError"
  by (simp add: select_kw_def)

lemma exists_row_no_cols:
  "map_of kwargs ''cols'' = None \<Longrightarrow> exists_row S cls conn kwargs = Inl TypeError"
  by (simp add: exists_row_def select_kw_no_cols)

lemma update_DB_table:
  "update S DB_table conn [(''key'', k)] [(''value'', v), (''update_time'', t)] True =
     (conn, Inl TypeError)"
  by (simp add: update_def exists_row_no_cols colnames_def DB_table_def)

lemma DB_setdata_TypeError:
  "key \<noteq> ''id'' \<Longrightarrow> key \<noteq> [] \<Longrightarrow> DB_setdata S now conn key data = (conn, Inl TypeError)"
  by (simp add: DB_setdata_def update_DB_table Let_def)

lemma DB_getdata_TypeError:
  "key \<noteq> ''id'' \<Longrightarrow> DB_getdata S conn key = Inl TypeError"
  by (simp add: DB_getdata_def select_kw_no_cols)

lemma DB_init_fails:
  "snd (DB_init S conn db_path ca cl cra pwd pa uuid4_bytes now) \<noteq> Inr self"
  by (simp add: DB_init_def exists_row_no_cols split: sum.splits prod.splits)

lemma rows_dict_keeps_id:
  "getattr_str S (Inr row) ''key'' = Inr ''id'' \<Longrightarrow>
   getattr_num S (Inr row) ''update_time'' = Inr t \<Longrightarrow>
   rows_dict S [row] Map.empty = Inr [''id'' \<mapsto> t]"
  by simp

section \<open>Validation of the compression level\<close>

text \<open>
  Claim C9, as amended: constructing a store with a compression level outside
  1..9 fails with AssertionError whatever the compression algorithm is
  (\<open>DataStore.__init__\<close>, and \<open>DB.__init__\<close> before it touches the database).
  \<open>setobj\<close> checks the effective level only when the effective compression
  algorithm is not \<open>uncompressed\<close>: then a level outside 1..9 fails with
  AssertionError and nothing is written; with \<open>uncompressed\<close> the level argument
  is ignored.
\<close>

theorem comp_level_checked_where:
  "(\<not> (1 \<le> cl \<and> cl \<le> 9) \<longrightarrow>
      DataStore_init ca cl cra pwd pa = Inl AssertionError \<and>
      DB_init S conn db_path ca cl cra pwd pa uuid4_bytes now = (conn, Inl AssertionError)) \<and>
   (or_default (arg_comp_algo a) (priv_comp_algo self) \<noteq> uncompressed \<and>
    \<not> (1 \<le> or_default (arg_comp_level a) (priv_comp_level self) \<and>
       or_default (arg_comp_level a) (priv_comp_level self) \<le> 9) \<longrightarrow>
      setobj L self setdata s key obj a urandom16 = (s, Inl AssertionError)) \<and>
   (or_default (arg_comp_algo a) (priv_comp_algo self) = uncompressed \<longrightarrow>
      setobj L self setdata s key obj (a\<lparr>arg_comp_level := l\<rparr>) urandom16 =
      setobj L self setdata s key obj a urandom16)"
proof (intro conjI impI)
  assume "\<not> (1 \<le> cl \<and> cl \<le> 9)"
  then show init: "DataStore_init ca cl cra pwd pa = Inl AssertionError"
    by (simp add: DataStore_init_def)
  then show "DB_init S conn db_path ca cl cra pwd pa uuid4_bytes now = (conn, Inl AssertionError)"
    by (simp add: DB_init_def)
next
  assume "or_default (arg_comp_algo a) (priv_comp_algo self) \<noteq> uncompressed \<and>
    \<not> (1 \<le> or_default (arg_comp_level a) (priv_comp_level self) \<and>
       or_default (arg_comp_level a) (priv_comp_level self) \<le> 9)"
  then have "setobj_buffer L self obj a urandom16 = Inl AssertionError"
    by (simp add: setobj_buffer_def Let_def level_ok_def)
  then show "setobj L self setdata s key obj a urandom16 = (s, Inl AssertionError)"
    by (simp add: setobj_def)
next
  assume u: "or_default (arg_comp_algo a) (priv_comp_algo self) = uncompressed"
  have "setobj_buffer L self obj (a\<lparr>arg_comp_level := l\<rparr>) urandom16 =
        setobj_buffer L self obj a urandom16"
    by (simp add: setobj_buffer_def Let_def u uncompressed_def zlib_def bz2_def cong: if_cong)
  then show "setobj L self setdata s key obj (a\<lparr>arg_comp_level := l\<rparr>) urandom16 =
      setobj L self setdata s key obj a urandom16"
    by (simp add: setobj_def)
qed

theorem comp_level_checked_where_witness:
  "\<not> (1 \<le> (0::int) \<and> (0::int) \<le> 9) \<and>
   DataStore_init uncompressed 0 unencrypted None unprotected = Inl AssertionError \<and>
   DB_init example_sqlite () ''store.db'' uncompressed 0 unencrypted None unprotected ''u'' 10 =
     ((), Inl AssertionError) \<and>
   or_default (arg_comp_algo (all_args\<lparr>arg_comp_level := Some 10\<rparr>))
     (priv_comp_algo DataStore_default) \<noteq> uncompressed \<and>
   \<not> (1 \<le> or_default (arg_comp_level (all_args\<lparr>arg_comp_level := Some 10\<rparr>))
            (priv_comp_level DataStore_default) \<and>
      or_default (arg_comp_level (all_args\<lparr>arg_comp_level := Some 10\<rparr>))
            (priv_comp_level DataStore_default) \<le> 9) \<and>
   setobj example_library DataStore_default (Dir_setdata example_dir 20) example_fs ''k''
     ''hello'' (all_args\<lparr>arg_comp_level := Some 10\<rparr>) example_iv =
     (example_fs, Inl AssertionError) \<and>
   or_default (arg_comp_algo no_args) (priv_comp_algo DataStore_default) = uncompressed \<and>
   setobj example_library DataStore_default (Dir_setdata example_dir 20) example_fs ''k''
     ''hello'' (no_args\<lparr>arg_comp_level := Some 0\<rparr>) example_iv =
   setobj example_library DataStore_default (Dir_setdata example_dir 20) example_fs ''k''
     ''hello'' no_args example_iv"
proof -
  have 1: "\<not> (1 \<le> (0::int) \<and> (0::int) \<le> 9)" by simp
  have 2: "or_default (arg_comp_algo (all_args\<lparr>arg_comp_level := Some 10\<rparr>))
     (priv_comp_algo DataStore_default) \<noteq> uncompressed \<and>
   \<not> (1 \<le> or_default (arg_comp_level (all_args\<lparr>arg_comp_level := Some 10\<rparr>))
            (priv_comp_level DataStore_default) \<and>
      or_default (arg_comp_level (all_args\<lparr>arg_comp_level := Some 10\<rparr>))
            (priv_comp_level DataStore_default) \<le> 9)"
    by (simp add: all_args_def zlib_def uncompressed_def)
  have 3: "or_default (arg_comp_algo no_args) (priv_comp_algo DataStore_default) = uncompressed"
    by (simp add: no_args_def DataStore_default_def)
  note t1 = comp_level_checked_where[where cl = 0 and ca = uncompressed and cra = unencrypted
      and pwd = None and pa = unprotected and S = example_sqlite and conn = "()"
      and db_path = "''store.db''" and ?uuid4_bytes.0 = "''u''" and now = 10
      and a = "all_args\<lparr>arg_comp_level := Some 10\<rparr>" and self = DataStore_default
      and L = example_library and setdata = "Dir_setdata example_dir 20" and s = example_fs
      and key = "''k''" and obj = "''hello''" and ?urandom16.0 = example_iv]
  note t2 = comp_level_checked_where[where a = no_args and self = DataStore_default
      and L = example_library and setdata = "Dir_setdata example_dir 20" and s = example_fs
      and key = "''k''" and obj = "''hello''" and ?urandom16.0 = example_iv and l = "Some 0"]
  note a1 = t1[THEN conjunct1, THEN mp, OF 1]
  note a2 = t1[THEN conjunct2, THEN conjunct1, THEN mp, OF 2]
  note b = t2[THEN conjunct2, THEN conjunct2, THEN mp, OF 3]
  from 1 2 3 a1 a2 b show ?thesis by simp
qed

text \<open>
  The claim as stated fails: with the default algorithm \<open>uncompressed\<close>,
  \<open>setobj(..., comp_level=0)\<close> on a directory store succeeds and writes the file.
\<close>

theorem comp_level_unchecked_counterexample:
  "Dir_setobj example_library example_dir 20 example_fs ''k'' ''hello''
     (no_args\<lparr>arg_comp_level := Some 0\<rparr>) example_iv =
   (Directory 10
      [(''store'',
        Directory 20
          [(''id'', File ''0123abcd'' 10),
           (''k'', File [CHR 0x00, CHR 0x00, CHR ''S'', CHR ''h'', CHR ''e'', CHR ''l'',
                         CHR ''l'', CHR ''o''] 20)])],
    Inr (Some 20))"
  by (simp add: Dir_setobj_def setobj_def setobj_buffer_def Dir_setdata_def
      example_dir_def example_fs_def example_library_def no_args_def DataStore_default_def
      dir_store.defs datastore.defs validate_CompAlgo validate_CryptAlgo validate_ProtectAlgo
      uncompressed_def unencrypted_def unprotected_def zlib_def bz2_def AES_def DPAPI_def
      chr_def char_of_0 path_join_def write_file_def getmtime_def isdir_def Let_def)

section \<open>The reserved key\<close>




section \<open>Where the code departs from the claims\<close>

text \<open>
  Claim C2 fails on the code: \<open>DB.setdata\<close> with the key \<open>profile\<close> raises
  TypeError (from \<open>update\<close>, through \<open>exists\<close>, at the call of \<open>select\<close> without
  \<open>cols\<close>) and leaves the database as it was, whatever sqlite3 does; the read
  that follows raises TypeError as well, and so does the constructor of \<open>DB\<close>.
\<close>

theorem DB_upsert_fails:
  "DB_setdata S now conn ''profile'' data = (conn, Inl TypeError) \<and>
   DB_getdata S conn ''profile'' = Inl TypeError \<and>
   DB_getobj L S self conn ''profile'' crypt_pwd = Inl TypeError \<and>
   snd (DB_init S conn db_path ca cl cra pwd pa uuid4_bytes now) \<noteq> Inr self"
  by (simp add: DB_setdata_TypeError DB_getdata_TypeError DB_getobj_def getobj_def
      DB_init_fails)

text \<open>
  Claim C5 fails on the relational backend: \<open>DB.listkeys\<close> raises TypeError for
  every database and every prefix. (Its comprehension neither leaves the identity
  row out, see \<open>rows_dict_keeps_id\<close>, nor looks at \<open>prefix\<close>.)
\<close>

theorem DB_listkeys_fails:
  "DB_listkeys S conn prefix = Inl TypeError"
  by (simp add: DB_listkeys_def select_kw_no_cols)

text \<open>
  Claim C6 fails on the code: for a key that is not in a directory store,
  \<open>Dir.getdata\<close> ends without a \<open>return\<close>, and \<open>getobj\<close> raises TypeError when it
  unpacks the result; \<open>DB.getdata\<close> raises TypeError itself.
\<close>

theorem absent_key_raises:
  "Dir_getdata example_dir example_fs ''missing'' = Inr ReturnsNone \<and>
   Dir_getobj L example_dir example_fs ''missing'' crypt_pwd = Inl TypeError \<and>
   DB_getdata S conn ''missing'' = Inl TypeError"
proof -
  have "Dir_getdata example_dir example_fs ''missing'' = Inr ReturnsNone"
    by (simp add: Dir_getdata_def Dir_listkeys_def example_dir_def example_fs_def
        dir_store.defs datastore.defs Let_def)
  then show ?thesis
    by (simp add: Dir_getobj_def getobj_def DB_getdata_TypeError)
qed

text \<open>
  Claim C7 fails on the code: a directory store is created with the identity
  \<open>0123abcd\<close>; \<open>setdata('/id', 'xyz')\<close> passes the reserved-key check, loses its
  leading slash and overwrites the identity file, and \<open>getid\<close> returns \<open>xyz\<close>.
\<close>

theorem identity_overwritten:
  "Dir_init [''store''] ''0123abcd'' 10 empty_fs = (example_fs, Inr example_dir) \<and>
   Dir_getid example_dir example_fs = Inr ''0123abcd'' \<and>
   Dir_setdata example_dir 20 example_fs ''/id'' ''xyz'' =
     (Directory 10 [(''store'', Directory 10 [(''id'', File ''xyz'' 20)])], Inr (Some 20)) \<and>
   Dir_getid example_dir (Directory 10 [(''store'', Directory 10 [(''id'', File ''xyz'' 20)])]) =
     Inr ''xyz''"
  by (simp add: Dir_init_def Dir_getid_def Dir_setdata_def unicode_def ord_def
      empty_fs_def example_fs_def example_dir_def dir_store.defs datastore.defs
      isdir_def isfile_def mkdir_def write_file_def read_file_def getmtime_def
      path_join_def Let_def)

text \<open>
  Claim C8 fails on the relational backend: \<open>DB.setdata\<close> never returns a
  timestamp.
\<close>

theorem DB_setdata_no_timestamp:
  "snd (DB_setdata S now conn key data) \<noteq> Inr (Some t)"
  by (simp add: DB_setdata_def Let_def split: prod.splits sum.splits)

text \<open>
  Claim C10 fails on the relational backend: \<open>setdata('/a/b', v)\<close> raises TypeError
  and stores nothing, and \<open>getdata('a/b')\<close> raises TypeError instead of finding a
  record.
\<close>

theorem DB_slash_key_fails:
  "DB_setdata S now conn ''/a/b'' v = (conn, Inl TypeError) \<and>
   DB_getdata S conn ''a/b'' = Inl TypeError \<and>
   DB_getdata S conn ''/a/b'' = Inl TypeError"
  by (simp add: DB_setdata_TypeError DB_getdata_TypeError)

text \<open>
  Claim C1 fails on the code: through the relational backend \<open>setobj\<close> raises
  TypeError and stores nothing, and \<open>getobj\<close> raises TypeError, whatever sqlite3
  does; through the directory backend \<open>setobj('/k', 'hello')\<close> stores the envelope
  under \<open>k\<close>, and \<open>getobj('/k')\<close> raises TypeError instead of returning the object.
\<close>

theorem round_trip_fails_through_backends:
  "DB_setobj example_library S bself now conn ''k'' ''hello'' all_args example_iv =
     (conn, Inl TypeError) \<and>
   DB_getobj example_library S bself conn ''k'' (Some ''pw'') = Inl TypeError \<and>
   Dir_setobj example_library example_dir 20 example_fs ''/k'' ''hello'' no_args example_iv =
     (Directory 10
        [(''store'',
          Directory 20
            [(''id'', File ''0123abcd'' 10),
             (''k'', File [CHR 0x00, CHR 0x00, CHR ''S'', CHR ''h'', CHR ''e'', CHR ''l'',
                           CHR ''l'', CHR ''o''] 20)])],
      Inr (Some 20)) \<and>
   Dir_getobj example_library example_dir
     (Directory 10
        [(''store'',
          Directory 20
            [(''id'', File ''0123abcd'' 10),
             (''k'', File [CHR 0x00, CHR 0x00, CHR ''S'', CHR ''h'', CHR ''e'', CHR ''l'',
                           CHR ''l'', CHR ''o''] 20)])])
     ''/k'' None = Inl TypeError"
proof -
  have vp: "valid_params (datastore.truncate bself) all_args"
    by (simp add: valid_params_def all_args_def
        pwd_or_default_def truthy_pwd_def zlib_def AES_def DPAPI_def uncompressed_def
        validate_CompAlgo validate_CryptAlgo validate_ProtectAlgo)
  have "serializable example_library ''hello''"
    by (simp add: serializable_def example_library_def unmark_def)
  with setobj_buffer_succeeds[OF example_library_sound _ vp, of "''hello''" example_iv]
  obtain buf where
    "setobj_buffer example_library (datastore.truncate bself) ''hello'' all_args example_iv
       = Inr buf"
    by (auto simp: example_iv_def)
  then have 1: "DB_setobj example_library S bself now conn ''k'' ''hello'' all_args example_iv =
     (conn, Inl TypeError)"
    by (simp add: DB_setobj_def setobj_def DB_setdata_TypeError)
  have 2: "DB_getobj example_library S bself conn ''k'' (Some ''pw'') = Inl TypeError"
    by (simp add: DB_getobj_def getobj_def DB_getdata_TypeError)
  have 3: "Dir_setobj example_library example_dir 20 example_fs ''/k'' ''hello'' no_args example_iv =
     (Directory 10
        [(''store'',
          Directory 20
            [(''id'', File ''0123abcd'' 10),
             (''k'', File [CHR 0x00, CHR 0x00, CHR ''S'', CHR ''h'', CHR ''e'', CHR ''l'',
                           CHR ''l'', CHR ''o''] 20)])],
      Inr (Some 20))"
    by (simp add: Dir_setobj_def setobj_def setobj_buffer_def Dir_setdata_def
      example_dir_def example_fs_def example_library_def no_args_def DataStore_default_def
      dir_store.defs datastore.defs validate_CompAlgo validate_CryptAlgo validate_ProtectAlgo
      uncompressed_def unencrypted_def unprotected_def zlib_def bz2_def AES_def DPAPI_def
      chr_def char_of_0 path_join_def write_file_def getmtime_def isdir_def Let_def)
  have 4: "Dir_getobj example_library example_dir
     (Directory 10
        [(''store'',
          Directory 20
            [(''id'', File ''0123abcd'' 10),
             (''k'', File [CHR 0x00, CHR 0x00, CHR ''S'', CHR ''h'', CHR ''e'', CHR ''l'',
                           CHR ''l'', CHR ''o''] 20)])])
     ''/k'' None = Inl TypeError"
    by (simp add: Dir_getobj_def getobj_def Dir_getdata_def Dir_listkeys_def
        example_dir_def dir_store.defs datastore.defs Let_def)
  from 1 2 3 4 show ?thesis by blast
qed

end
